theory Spec2Isabelle
  imports Complex_Main "HOL-Library.Word" "HOL-Library.Multiset"
begin

chapter \<open>Order lifecycle of the ticket-sales backend\<close>

text \<open>
  The development embeds the order lifecycle of the backend: the tool that creates an
  order (\<^verbatim>\<open>createOrderTool.ts\<close>), the tool that confirms, rejects and cancels orders
  (\<^verbatim>\<open>manageOrderTool\<close>), the HTTP handlers \<^verbatim>\<open>/api/create-order\<close> and
  \<^verbatim>\<open>/api/create-ticket-order\<close>, the refund branch of the Telegram webhook, the
  notification functions of the Telegram admin service, and the in-memory admin session
  tokens.

  Everything outside the TypeScript code is a parameter of the model:
  \<^item> the database is a record of tables (lists of rows); a query either throws, leaving
    the tables as they are, or takes effect at once (the pool's autocommit), and inside
    \<^verbatim>\<open>BEGIN\<close> ... \<^verbatim>\<open>COMMIT\<close> the statements work on a copy that replaces the
    tables at \<^verbatim>\<open>COMMIT\<close> only;
  \<^item> which database call throws is fixed by a fault plan \<open>db_fails\<close>: call number \<open>k\<close> of
    the operation throws iff \<open>db_fails env k\<close>; \<open>tg_fails\<close> does the same for the calls to
    the Telegram API;
  \<^item> \<^verbatim>\<open>Math.random()\<close>, \<^verbatim>\<open>Date.now()\<close>, the identifier the orders sequence hands out
    and the process environment are fields of the record \<open>env\<close>.
\<close>

section \<open>JavaScript values\<close>

text \<open>
  A JavaScript string is a sequence of UTF-16 code units, and \<^verbatim>\<open>length\<close> counts them.
  \<open>ascii\<close> embeds an ASCII literal.
\<close>

type_synonym jsstring = "16 word list"

definition ascii :: "string \<Rightarrow> jsstring" where
  "ascii s = map of_char s"

text \<open>\<^verbatim>\<open>s.charAt(i)\<close>: the empty string when \<open>i\<close> is out of range.\<close>

definition charAt :: "jsstring \<Rightarrow> int \<Rightarrow> jsstring" where
  "charAt s i = (if 0 \<le> i \<and> i < int (length s) then [s ! nat i] else [])"

text \<open>
  The code units that \<^verbatim>\<open>trim()\<close> and \<^verbatim>\<open>parseInt\<close> strip: ECMAScript's WhiteSpace and
  LineTerminator.
\<close>

definition is_js_space :: "16 word \<Rightarrow> bool" where
  "is_js_space u \<longleftrightarrow>
     u \<in> {0x09, 0x0A, 0x0B, 0x0C, 0x0D, 0x20, 0xA0, 0x1680, 0x2028, 0x2029,
          0x202F, 0x205F, 0x3000, 0xFEFF}
     \<or> (0x2000 \<le> u \<and> u \<le> 0x200A)"

definition trimStart :: "jsstring \<Rightarrow> jsstring" where
  "trimStart s = dropWhile is_js_space s"

definition trim :: "jsstring \<Rightarrow> jsstring" where
  "trim s = rev (dropWhile is_js_space (rev (dropWhile is_js_space s)))"

definition startsWith :: "jsstring \<Rightarrow> jsstring \<Rightarrow> bool" where
  "startsWith s p \<longleftrightarrow> take (length p) s = p"

text \<open>\<^verbatim>\<open>s.split(sep)\<close> for a separator of one code unit.\<close>

fun split_on :: "16 word \<Rightarrow> jsstring \<Rightarrow> jsstring list" where
  "split_on sep [] = [[]]"
| "split_on sep (u # us) =
     (if u = sep then [] # split_on sep us
      else (case split_on sep us of
              [] \<Rightarrow> [[u]]
            | p # ps \<Rightarrow> (u # p) # ps))"

text \<open>\<^verbatim>\<open>xs[i]\<close>: \<^verbatim>\<open>undefined\<close> (here \<open>None\<close>) out of range.\<close>

definition nth_opt :: "'a list \<Rightarrow> nat \<Rightarrow> 'a option" where
  "nth_opt xs i = (if i < length xs then Some (xs ! i) else None)"

text \<open>\<^verbatim>\<open>v || null\<close> on an optional string: the empty string is falsy.\<close>

definition nonempty :: "jsstring option \<Rightarrow> jsstring option" where
  "nonempty v = (case v of Some s \<Rightarrow> (if s = [] then None else Some s) | None \<Rightarrow> None)"

text \<open>
  What the code throws and catches. \<open>DbError k\<close> is thrown by database call number \<open>k\<close>,
  \<open>TelegramError k\<close> by call number \<open>k\<close> to the Telegram API; \<open>TypeError\<close> is a method
  call on a value that has no such method, or the conversion to a primitive of an object
  that has none; \<open>SyntaxError\<close> is a request body that is not JSON.
\<close>

datatype exn = DbError nat | TelegramError nat | TypeError | SyntaxError

text \<open>
  \<open>number_toString radix n\<close> is \<^verbatim>\<open>n.toString(radix)\<close> for an integer \<open>n\<close> below
  \<open>10\<^sup>2\<^sup>1\<close> in absolute value: its numeral in that radix (digits, then lower-case
  letters). The code applies it to \<^verbatim>\<open>Date.now()\<close> only.
\<close>

fun digits_of :: "nat \<Rightarrow> nat \<Rightarrow> nat list" where
  "digits_of b n = (if b < 2 \<or> n < b then [n] else digits_of b (n div b) @ [n mod b])"

declare digits_of.simps [simp del]

definition digit_char :: "nat \<Rightarrow> 16 word" where
  "digit_char d = (if d < 10 then of_nat (48 + d) else of_nat (97 + (d - 10)))"

definition toUpperCase_unit :: "16 word \<Rightarrow> 16 word" where
  "toUpperCase_unit u = (if 0x61 \<le> u \<and> u \<le> 0x7A then u - 0x20 else u)"

definition number_toString :: "nat \<Rightarrow> int \<Rightarrow> jsstring" where
  "number_toString radix n =
     (if n < 0 then ascii ''-'' @ map digit_char (digits_of radix (nat (- n)))
      else map digit_char (digits_of radix (nat n)))"

text \<open>
  A parsed JSON request body. A number is carried by the text that \<^verbatim>\<open>Number.prototype.toString\<close>
  prints for it: \<^verbatim>\<open>5\<close>, \<^verbatim>\<open>-12\<close>, \<^verbatim>\<open>3.5\<close>, \<^verbatim>\<open>1e+21\<close>, \<^verbatim>\<open>1e-7\<close>; both zeros print as
  \<^verbatim>\<open>0\<close>. A field that is absent reads as \<^verbatim>\<open>undefined\<close>, which is \<open>None\<close> of type
  \<open>json option\<close>; \<^verbatim>\<open>JSON.parse\<close> keeps the last of several equal keys. Reading a field
  of a body that is not an object gives \<^verbatim>\<open>undefined\<close>, except for \<^verbatim>\<open>null\<close>, where it
  throws (the handler checks for that case before it calls \<open>get_field\<close>).
\<close>

datatype json =
    JNull
  | JBool bool
  | JNum jsstring
  | JStr jsstring
  | JArr "json list"
  | JObj "(jsstring \<times> json) list"

definition get_field :: "json \<Rightarrow> jsstring \<Rightarrow> json option" where
  "get_field body name = (case body of JObj fs \<Rightarrow> map_of (rev fs) name | _ \<Rightarrow> None)"

fun join_with :: "jsstring \<Rightarrow> jsstring list \<Rightarrow> jsstring" where
  "join_with sep [] = []"
| "join_with sep [x] = x"
| "join_with sep (x # y # ys) = x @ sep @ join_with sep (y # ys)"

text \<open>The results of a list of conversions, or the first exception among them.\<close>

fun all_results :: "(exn + 'a) list \<Rightarrow> exn + 'a list" where
  "all_results [] = Inr []"
| "all_results (x # xs) =
     (case x of
        Inl e \<Rightarrow> Inl e
      | Inr v \<Rightarrow> (case all_results xs of Inl e \<Rightarrow> Inl e | Inr vs \<Rightarrow> Inr (v # vs)))"

text \<open>
  ECMAScript's ToString. An array joins its elements with a comma, \<^verbatim>\<open>null\<close> as empty.
  An object is converted by its method \<^verbatim>\<open>toString\<close>: a parsed JSON object inherits the
  one that prints \<^verbatim>\<open>[object Object]\<close>, unless it has a key \<^verbatim>\<open>toString\<close> of its own,
  whose value is not a function; then neither \<^verbatim>\<open>toString\<close> nor the inherited
  \<^verbatim>\<open>valueOf\<close> gives a primitive, and the conversion throws a \<^verbatim>\<open>TypeError\<close>. The
  conversion to a primitive that \<^verbatim>\<open>v > 0\<close> starts with throws in the same cases.
\<close>

fun ToString :: "json \<Rightarrow> exn + jsstring" where
  "ToString JNull = Inr (ascii ''null'')"
| "ToString (JBool b) = Inr (if b then ascii ''true'' else ascii ''false'')"
| "ToString (JNum s) = Inr s"
| "ToString (JStr s) = Inr s"
| "ToString (JArr xs) =
     (case all_results (map (\<lambda>x. if x = JNull then Inr [] else ToString x) xs) of
        Inl e \<Rightarrow> Inl e
      | Inr ss \<Rightarrow> Inr (join_with (ascii '','') ss))"
| "ToString (JObj fs) =
     (if ascii ''toString'' \<in> set (map fst fs) then Inl TypeError
      else Inr (ascii ''[object Object]''))"

definition ToString_opt :: "json option \<Rightarrow> exn + jsstring" where
  "ToString_opt v = (case v of None \<Rightarrow> Inr (ascii ''undefined'') | Some x \<Rightarrow> ToString x)"

text \<open>ECMAScript's ToBoolean, as \<^verbatim>\<open>!v\<close> and \<^verbatim>\<open>v ? a : b\<close> use it.\<close>

definition truthy :: "json option \<Rightarrow> bool" where
  "truthy v =
     (case v of
        None \<Rightarrow> False
      | Some JNull \<Rightarrow> False
      | Some (JBool b) \<Rightarrow> b
      | Some (JNum s) \<Rightarrow> s \<noteq> ascii ''0'' \<and> s \<noteq> ascii ''NaN''
      | Some (JStr s) \<Rightarrow> s \<noteq> []
      | Some (JArr xs) \<Rightarrow> True
      | Some (JObj fs) \<Rightarrow> True)"

text \<open>
  \<^verbatim>\<open>parseInt(v)\<close> with no radix: ToString, which may throw; leading white space and one
  sign are dropped, \<^verbatim>\<open>0x\<close> selects radix 16, and the longest prefix of digits is read.
  With no digit the result is \<^verbatim>\<open>NaN\<close>, here \<open>None\<close>; otherwise it is the Number nearest
  to the integer \<open>n\<close> that the digits denote, here \<open>Some n\<close>. Up to \<open>2\<^sup>5\<^sup>3\<close> in absolute value
  the two are the same number, and the nearest Number is below 1, or above 10, exactly
  when \<open>n\<close> is. \<open>nearest_double n\<close> is that Number, which is an integer again (round to
  nearest, ties to even, on 53 bits), or \<open>None\<close> when it is infinite.
\<close>

definition digit_value :: "16 word \<Rightarrow> nat option" where
  "digit_value u =
     (if 0x30 \<le> u \<and> u \<le> 0x39 then Some (unat u - 48)
      else if 0x61 \<le> u \<and> u \<le> 0x7A then Some (unat u - 87)
      else if 0x41 \<le> u \<and> u \<le> 0x5A then Some (unat u - 55)
      else None)"

definition is_radix_digit :: "nat \<Rightarrow> 16 word \<Rightarrow> bool" where
  "is_radix_digit radix u = (case digit_value u of None \<Rightarrow> False | Some d \<Rightarrow> d < radix)"

definition digits_value :: "nat \<Rightarrow> jsstring \<Rightarrow> int" where
  "digits_value radix z =
     foldl (\<lambda>acc u. acc * int radix + int (case digit_value u of None \<Rightarrow> 0 | Some d \<Rightarrow> d)) 0 z"

definition parseInt_string :: "jsstring \<Rightarrow> int option" where
  "parseInt_string input =
     (let s0 = trimStart input;
          neg = (s0 \<noteq> [] \<and> hd s0 = 0x2D);
          s1 = (if s0 \<noteq> [] \<and> (hd s0 = 0x2B \<or> hd s0 = 0x2D) then tl s0 else s0);
          hex = (startsWith s1 (ascii ''0x'') \<or> startsWith s1 (ascii ''0X''));
          radix = (if hex then 16 else 10);
          s2 = (if hex then drop 2 s1 else s1);
          z = takeWhile (is_radix_digit radix) s2
      in if z = [] then None
         else Some ((if neg then - 1 else 1) * digits_value radix z))"

definition parseInt :: "json option \<Rightarrow> exn + int option" where
  "parseInt v =
     (case ToString_opt v of Inl e \<Rightarrow> Inl e | Inr input \<Rightarrow> Inr (parseInt_string input))"

fun bit_length :: "nat \<Rightarrow> nat" where
  "bit_length m = (if m = 0 then 0 else Suc (bit_length (m div 2)))"

declare bit_length.simps [simp del]

definition nearest_double :: "int \<Rightarrow> int option" where
  "nearest_double n =
     (let m = nat \<bar>n\<bar>;
          k = bit_length m
      in if k \<le> 53 then Some n
         else
           (let q = m div 2 ^ (k - 53);
                r = m mod 2 ^ (k - 53);
                half = 2 ^ (k - 54);
                v = (if r > half \<or> (r = half \<and> odd q) then q + 1 else q) * 2 ^ (k - 53)
            in if v \<ge> 2 ^ 1024 then None
               else Some (if n < 0 then - int v else int v)))"

text \<open>\<^verbatim>\<open>typeof v === "number"\<close>.\<close>

definition is_number :: "json option \<Rightarrow> bool" where
  "is_number v = (case v of Some (JNum s) \<Rightarrow> True | _ \<Rightarrow> False)"

text \<open>
  A number sent as the parameter of a query is sent as its text. The identifier columns
  are integer columns, of unbounded range in the model: PostgreSQL reads the text of an
  integer and rejects every other text (\<^verbatim>\<open>3.5\<close>, \<^verbatim>\<open>1e+21\<close>), here \<open>None\<close>; the
  statement then throws.
\<close>

definition integer_param :: "jsstring \<Rightarrow> int option" where
  "integer_param s =
     (let neg = (s \<noteq> [] \<and> hd s = 0x2D);
          z = (if neg then tl s else s)
      in if z \<noteq> [] \<and> list_all (is_radix_digit 10) z
         then Some ((if neg then - 1 else 1) * digits_value 10 z)
         else None)"

section \<open>Errors, messages and the database\<close>

text \<open>
  The user-facing messages are Russian string templates. A message is modelled by the
  template it comes from, together with the values the template interpolates:
  \<open>NotEnoughSeats n\<close> is the text of \<^verbatim>\<open>createOrderTool\<close> that ends in
  \<^verbatim>\<open>${event.available_seats}\<close>, \<open>OrderCreated\<close> carries the order code, the event name,
  the city name and the total price, and \<open>NotEnoughSeatsPlain\<close> is the text of
  \<^verbatim>\<open>/api/create-ticket-order\<close>, which has no count.
\<close>

datatype message =
    DbUnavailableRetry
  | EventNotFound
  | NotEnoughSeats int
  | OrderCreated jsstring jsstring jsstring int
  | CreateOrderFailed
  | EventNotSpecified
  | NameRequired
  | PhoneRequired
  | SeatsOutOfRange
  | CreateOrderError
  | NotEnoughSeatsPlain
  | TicketOrderError

text \<open>
  The tables, with the columns the modelled statements read or write. The schema is not
  part of the sources: no uniqueness or foreign-key constraint is assumed, a \<^verbatim>\<open>SELECT\<close>
  returns every row that matches, and a nullable column is an \<open>option\<close>. \<open>e_date\<close> is the
  event's day as the code renders it.
\<close>

record event_row =
  e_id :: int
  e_name :: jsstring
  e_category_id :: int
  e_city_id :: "int option"
  e_date :: jsstring
  e_time :: "jsstring option"
  e_price :: int
  e_available_seats :: int
  e_slug :: jsstring
  e_admin_id :: "int option"

record order_row =
  o_id :: int
  o_order_code :: jsstring
  o_event_id :: "int option"
  o_event_template_id :: "int option"
  o_link_code :: "jsstring option"
  o_admin_id :: "int option"
  o_customer_name :: jsstring
  o_customer_phone :: jsstring
  o_customer_email :: "jsstring option"
  o_telegram_chat_id :: "jsstring option"
  o_telegram_username :: "jsstring option"
  o_seats_count :: int
  o_total_price :: int
  o_status :: jsstring
  o_payment_status :: jsstring
  o_tickets_json :: "jsstring option"
  o_created_at :: int
  o_updated_at :: int

record template_row =
  et_id :: int
  et_name :: jsstring
  et_category_id :: int

record link_row =
  gl_link_code :: jsstring
  gl_event_date :: "jsstring option"
  gl_event_time :: "jsstring option"
  gl_city_id :: "int option"

record refund_row =
  rf_refund_code :: jsstring
  rf_status :: jsstring
  rf_amount :: int
  rf_customer_name :: "jsstring option"
  rf_refund_number :: "jsstring option"
  rf_processed_at :: "int option"

record db =
  events :: "event_row list"
  orders :: "order_row list"
  categories :: "(int \<times> jsstring) list"
  cities :: "(int \<times> jsstring) list"
  event_templates :: "template_row list"
  generated_links :: "link_row list"
  refund_links :: "refund_row list"

section \<open>The Telegram side and the environment\<close>

record notification =
  n_orderId :: int
  n_orderCode :: jsstring
  n_eventName :: jsstring
  n_eventDate :: jsstring
  n_eventTime :: jsstring
  n_cityName :: jsstring
  n_customerName :: jsstring
  n_customerPhone :: jsstring
  n_customerEmail :: "jsstring option"
  n_seatsCount :: int
  n_totalPrice :: int
  n_tickets :: "json option"

record refund_data =
  rd_refundCode :: jsstring
  rd_amount :: int
  rd_customerName :: "jsstring option"
  rd_refundNumber :: "jsstring option"

text \<open>
  The texts sent to Telegram, again by template: \<open>RefundStatusText approve code amount t\<close>
  is the edited message that shows the decision. \<open>AlreadyProcessed approved\<close> is the
  notice that the refund has been processed before, with the decision it names.
\<close>

datatype tg_text =
    ChannelOrderText notification
  | AdminOrderText notification
  | RefundApprovedText refund_data
  | RefundRejectedText refund_data
  | RefundStatusText bool jsstring int int

datatype notice =
    LinkNotFound
  | AlreadyProcessed bool
  | RefundApprovedNotice
  | RefundRejectedNotice
  | ProcessingError

datatype tg_call =
    SendMessage jsstring tg_text
  | AnswerCallbackQuery jsstring notice
  | EditMessageText "int option" "int option" tg_text

text \<open>
  The entries written with \<^verbatim>\<open>console.error\<close>, \<^verbatim>\<open>console.warn\<close> and \<^verbatim>\<open>logger.error\<close>;
  the handlers' \<^verbatim>\<open>logger\<close> is the one that Mastra provides, taken to be present.
\<close>

datatype log_entry =
    BotInitFailed
  | BotNotInitializedForChannel
  | NoChannelTargetConfigured
  | ChannelSendFailed exn
  | BotNotInitialized
  | AdminChatNotConfigured
  | AdminSendFailed exn
  | NotificationsFailed exn
  | CreateOrderHandlerError exn
  | TicketOrderHandlerError exn
  | AnswerCallbackFailed exn
  | RefundApprovedSendFailed exn
  | RefundRejectedSendFailed exn
  | RefundCallbackError exn

text \<open>
  What a request has done outside the database, once all of its promises have settled:
  the calls to the Telegram API in the order in which they were issued, and the entries
  of the log. The two notification functions of a request run concurrently, and the
  order of their log entries is not modelled: the log is a multiset.
\<close>

record io =
  sent :: "tg_call list"
  logged :: "log_entry multiset"

text \<open>
  \<open>dbPool\<close>: \<^verbatim>\<open>getPool()\<close> returned a pool. \<open>random k\<close>: the value of call \<open>k\<close> of
  \<^verbatim>\<open>Math.random()\<close>. \<open>new_id\<close>: the identifier \<^verbatim>\<open>RETURNING id\<close> gives the inserted order.
  \<open>now\<close>: \<^verbatim>\<open>Date.now()\<close> and the database's \<^verbatim>\<open>NOW()\<close>. \<open>BOT_TOKEN\<close>, \<open>ADMIN_CHAT_ID\<close>,
  \<open>GROUP_ID\<close>: the module constants read from the process environment. \<open>bot_ctor_ok\<close>:
  \<^verbatim>\<open>new TelegramBot(BOT_TOKEN)\<close> does not throw. \<open>default_payment_status\<close>: the default of
  the column \<^verbatim>\<open>orders.payment_status\<close>, which the schema fixes.
\<close>

record env =
  dbPool :: bool
  db_fails :: "nat \<Rightarrow> bool"
  random :: "nat \<Rightarrow> real"
  new_id :: int
  now :: int
  BOT_TOKEN :: "jsstring option"
  bot_ctor_ok :: bool
  ADMIN_CHAT_ID :: "jsstring option"
  GROUP_ID :: "jsstring option"
  tg_fails :: "nat \<Rightarrow> bool"
  default_payment_status :: jsstring

definition log_error :: "log_entry \<Rightarrow> io \<Rightarrow> io" where
  "log_error l w = w\<lparr>logged := add_mset l (logged w)\<rparr>"

text \<open>A call to the Telegram API is recorded whether or not it throws.\<close>

definition tg_api :: "env \<Rightarrow> tg_call \<Rightarrow> io \<Rightarrow> (exn + unit) \<times> io" where
  "tg_api env c w =
     (if tg_fails env (length (sent w)) then Inl (TelegramError (length (sent w))) else Inr (),
      w\<lparr>sent := sent w @ [c]\<rparr>)"

text \<open>
  \<^verbatim>\<open>getBot()\<close> returns a bot (\<open>True\<close>) or \<^verbatim>\<open>null\<close>. It writes to the log when the
  constructor throws, and only then: \<open>getBot_logged env w\<close> is the log after a call that
  has returned \<^verbatim>\<open>null\<close>.
\<close>

definition getBot :: "env \<Rightarrow> bool" where
  "getBot env = (case nonempty (BOT_TOKEN env) of None \<Rightarrow> False | Some t \<Rightarrow> bot_ctor_ok env)"

definition getBot_logged :: "env \<Rightarrow> io \<Rightarrow> io" where
  "getBot_logged env w =
     (case nonempty (BOT_TOKEN env) of
        None \<Rightarrow> w
      | Some t \<Rightarrow> if bot_ctor_ok env then w else log_error BotInitFailed w)"

text \<open>
  \<^verbatim>\<open>Object.entries(tickets)\<close>, values only: the values of an object (the last one of
  each key), the elements of an array, the characters of a string, and nothing for a
  number or \<^verbatim>\<open>true\<close>.
\<close>

definition entry_values :: "json \<Rightarrow> json list" where
  "entry_values tickets =
     (case tickets of
        JObj fs \<Rightarrow> List.map_filter (map_of (rev fs)) (remdups (map fst fs))
      | JArr xs \<Rightarrow> xs
      | JStr s \<Rightarrow> map (\<lambda>u. JStr [u]) s
      | _ \<Rightarrow> [])"

text \<open>
  \<^verbatim>\<open>formatTicketBreakdown(tickets)\<close> tests \<^verbatim>\<open>count > 0\<close> for every entry of \<^verbatim>\<open>tickets\<close>,
  which converts \<^verbatim>\<open>count\<close> to a primitive and throws when that conversion does. The
  text it returns otherwise is part of the message, which \<open>ChannelOrderText\<close> stands for,
  so the result here is only whether the call returns.
\<close>

definition formatTicketBreakdown :: "json option \<Rightarrow> exn + unit" where
  "formatTicketBreakdown tickets =
     (case tickets of
        None \<Rightarrow> Inr ()
      | Some t \<Rightarrow>
          (if \<not> truthy (Some t) then Inr ()
           else (case all_results (map ToString (entry_values t)) of
                   Inl e \<Rightarrow> Inl e
                 | Inr counts \<Rightarrow> Inr ())))"

text \<open>
  The notification functions are \<^verbatim>\<open>async\<close> functions of type \<^verbatim>\<open>Promise<boolean>\<close>: the
  result is \<open>Inr b\<close> when the promise resolves to \<open>b\<close> and \<open>Inl e\<close> when it rejects.
  \<^verbatim>\<open>sendChannelNotification\<close> builds its message, with \<^verbatim>\<open>formatTicketBreakdown\<close>, before
  its \<^verbatim>\<open>try\<close>: an exception there rejects the promise, and nothing is sent or logged
  by the function. The other fields of the order are strings and numbers, as
  \<^verbatim>\<open>/api/create-order\<close> passes them, and the message of
  \<^verbatim>\<open>sendOrderNotificationToAdmin\<close> is built from them alone.
\<close>

definition sendChannelNotification :: "env \<Rightarrow> notification \<Rightarrow> io \<Rightarrow> (exn + bool) \<times> io" where
  "sendChannelNotification env order w =
     (if \<not> getBot env
      then (Inr False, log_error BotNotInitializedForChannel (getBot_logged env w))
      else (case (case nonempty (GROUP_ID env) of
                    Some g \<Rightarrow> Some g
                  | None \<Rightarrow> nonempty (ADMIN_CHAT_ID env)) of
              None \<Rightarrow> (Inr False, log_error NoChannelTargetConfigured w)
            | Some targetChatId \<Rightarrow>
                (case formatTicketBreakdown (n_tickets order) of
                   Inl error \<Rightarrow> (Inl error, w)
                 | Inr ticketInfo \<Rightarrow>
                     (case tg_api env (SendMessage targetChatId (ChannelOrderText order)) w of
                        (Inr u, w') \<Rightarrow> (Inr True, w')
                      | (Inl error, w') \<Rightarrow>
                          (Inr False, log_error (ChannelSendFailed error) w')))))"

definition sendOrderNotificationToAdmin ::
  "env \<Rightarrow> notification \<Rightarrow> io \<Rightarrow> (exn + bool) \<times> io" where
  "sendOrderNotificationToAdmin env order w =
     (if \<not> getBot env then (Inr False, log_error BotNotInitialized (getBot_logged env w))
      else (case nonempty (ADMIN_CHAT_ID env) of
              None \<Rightarrow> (Inr False, log_error AdminChatNotConfigured w)
            | Some admin \<Rightarrow>
                (case tg_api env (SendMessage admin (AdminOrderText order)) w of
                   (Inr u, w') \<Rightarrow> (Inr True, w')
                 | (Inl error, w') \<Rightarrow> (Inr False, log_error (AdminSendFailed error) w'))))"

text \<open>
  The handlers' \<^verbatim>\<open>try { await Promise.all([sendChannelNotification(...),
  sendOrderNotificationToAdmin(...)]) } catch (notifyError) { ... }\<close>: both calls are
  started, the channel's first, and a rejection of either is logged by the \<^verbatim>\<open>catch\<close>
  and dropped.
\<close>

definition send_order_notifications :: "env \<Rightarrow> notification \<Rightarrow> io \<Rightarrow> io" where
  "send_order_notifications env n w =
     (case sendChannelNotification env n w of
        (r1, w1) \<Rightarrow>
          (case sendOrderNotificationToAdmin env n w1 of
             (r2, w2) \<Rightarrow>
               (case r1 of
                  Inl notifyError \<Rightarrow> log_error (NotificationsFailed notifyError) w2
                | Inr b1 \<Rightarrow>
                    (case r2 of
                       Inl notifyError \<Rightarrow> log_error (NotificationsFailed notifyError) w2
                     | Inr b2 \<Rightarrow> w2))))"

definition answerCallbackQuery :: "env \<Rightarrow> jsstring \<Rightarrow> notice \<Rightarrow> io \<Rightarrow> (exn + bool) \<times> io" where
  "answerCallbackQuery env callbackQueryId text w =
     (if \<not> getBot env then (Inr False, getBot_logged env w)
      else (case tg_api env (AnswerCallbackQuery callbackQueryId text) w of
              (Inr u, w') \<Rightarrow> (Inr True, w')
            | (Inl error, w') \<Rightarrow> (Inr False, log_error (AnswerCallbackFailed error) w')))"

definition sendRefundApprovedNotification ::
  "env \<Rightarrow> refund_data \<Rightarrow> io \<Rightarrow> (exn + bool) \<times> io" where
  "sendRefundApprovedNotification env refund w =
     (case (if getBot env then nonempty (GROUP_ID env) else None) of
        None \<Rightarrow> (Inr False, getBot_logged env w)
      | Some g \<Rightarrow>
          (case tg_api env (SendMessage g (RefundApprovedText refund)) w of
             (Inr u, w') \<Rightarrow> (Inr True, w')
           | (Inl error, w') \<Rightarrow> (Inr False, log_error (RefundApprovedSendFailed error) w')))"

definition sendRefundRejectedNotification ::
  "env \<Rightarrow> refund_data \<Rightarrow> io \<Rightarrow> (exn + bool) \<times> io" where
  "sendRefundRejectedNotification env refund w =
     (case (if getBot env then nonempty (GROUP_ID env) else None) of
        None \<Rightarrow> (Inr False, getBot_logged env w)
      | Some g \<Rightarrow>
          (case tg_api env (SendMessage g (RefundRejectedText refund)) w of
             (Inr u, w') \<Rightarrow> (Inr True, w')
           | (Inl error, w') \<Rightarrow> (Inr False, log_error (RefundRejectedSendFailed error) w')))"

section \<open>createOrderTool\<close>

record create_context =
  c_eventId :: int
  c_customerName :: jsstring
  c_customerPhone :: jsstring
  c_customerEmail :: "jsstring option"
  c_seatsCount :: int
  c_totalPrice :: "int option"
  c_telegramChatId :: "jsstring option"
  c_telegramUsername :: "jsstring option"

text \<open>
  The tool's result is \<^verbatim>\<open>{success, message}\<close>, with the fields of \<open>created\<close> added when
  the order has been created. \<open>c_totalPrice\<close> is \<open>None\<close> for \<^verbatim>\<open>undefined\<close> and for \<^verbatim>\<open>NaN\<close>.
\<close>

record created =
  r_orderCode :: jsstring
  r_orderId :: int
  r_eventName :: jsstring
  r_eventDate :: jsstring
  r_eventTime :: jsstring
  r_cityName :: jsstring
  r_customerName :: jsstring
  r_customerPhone :: jsstring
  r_customerEmail :: "jsstring option"
  r_seatsCount :: int
  r_totalPrice :: int

record create_result =
  success :: bool
  details :: "created option"
  message :: message

definition failure :: "message \<Rightarrow> create_result" where
  "failure m = \<lparr>success = False, details = None, message = m\<rparr>"

definition chars :: jsstring where
  "chars = ascii ''ABCDEFGHIJKLMNOPQRSTUVWXYZ0123456789''"

text \<open>
  The loop of \<^verbatim>\<open>generateOrderCode\<close>, from index \<open>i\<close> with the code built so far;
  \<open>rnd i\<close> is the value \<^verbatim>\<open>Math.random()\<close> returns in round \<open>i\<close>.
\<close>

function order_code_loop :: "(nat \<Rightarrow> real) \<Rightarrow> nat \<Rightarrow> jsstring \<Rightarrow> jsstring" where
  "order_code_loop rnd i code =
     (if i < 8
      then order_code_loop rnd (Suc i)
             (code @ charAt chars \<lfloor>rnd i * real (length chars)\<rfloor>)
      else code)"
  by pat_completeness auto
termination
  by (relation "measure (\<lambda>(rnd, i, code). 8 - i)") auto

declare order_code_loop.simps [simp del]

definition generateOrderCode :: "(nat \<Rightarrow> real) \<Rightarrow> jsstring" where
  "generateOrderCode rnd = ascii ''ORD-'' @ order_code_loop rnd 0 []"

text \<open>
  \<^verbatim>\<open>withTransaction(dbPool, fn)\<close>. Call 0 is \<^verbatim>\<open>dbPool.connect()\<close>, outside the
  \<^verbatim>\<open>try\<close>; call 1 is \<^verbatim>\<open>BEGIN\<close>. \<open>fn\<close> runs on the tables \<open>d\<close> and returns its outcome,
  the tables as its statements leave them, and the number of the next call, which is
  \<^verbatim>\<open>COMMIT\<close>. Whatever throws inside the \<^verbatim>\<open>try\<close> is followed by \<^verbatim>\<open>ROLLBACK\<close>, the next
  call, and thrown again, unless \<^verbatim>\<open>ROLLBACK\<close> throws first (\<open>rollback\<close>); the tables are
  then the ones before \<^verbatim>\<open>BEGIN\<close>.
\<close>

definition rollback :: "(nat \<Rightarrow> bool) \<Rightarrow> nat \<Rightarrow> exn \<Rightarrow> exn" where
  "rollback fails k e = (if fails k then DbError k else e)"

definition withTransaction ::
  "(nat \<Rightarrow> bool) \<Rightarrow> (db \<Rightarrow> (exn + 'a) \<times> db \<times> nat) \<Rightarrow> db \<Rightarrow> (exn + 'a) \<times> db" where
  "withTransaction fails fn d =
     (if fails 0 then (Inl (DbError 0), d)
      else if fails 1 then (Inl (rollback fails 2 (DbError 1)), d)
      else (case fn d of
              (Inl e, w, k) \<Rightarrow> (Inl (rollback fails k e), d)
            | (Inr r, w, k) \<Rightarrow>
                (if fails k then (Inl (rollback fails (Suc k) (DbError k)), d)
                 else (Inr r, w))))"

text \<open>
  \<^verbatim>\<open>SELECT e.*, c.name_ru, ci.name FROM events e JOIN categories c ... JOIN cities ci ...
  WHERE e.id = $1 FOR UPDATE\<close>: the event with its category name and city name.
\<close>

definition select_event_for_update ::
  "db \<Rightarrow> int \<Rightarrow> (event_row \<times> jsstring \<times> jsstring) list" where
  "select_event_for_update d eid =
     [(e, snd c, snd ci). e \<leftarrow> events d, c \<leftarrow> categories d, ci \<leftarrow> cities d,
        e_category_id e = fst c \<and> e_city_id e = Some (fst ci) \<and> e_id e = eid]"

definition insert_order :: "order_row \<Rightarrow> db \<Rightarrow> db" where
  "insert_order r d = d\<lparr>orders := orders d @ [r]\<rparr>"

text \<open>\<^verbatim>\<open>UPDATE events SET available_seats = available_seats + $1 WHERE id = $2\<close>.\<close>

definition add_available_seats :: "int \<Rightarrow> int option \<Rightarrow> db \<Rightarrow> db" where
  "add_available_seats n eid d =
     d\<lparr>events := map (\<lambda>e. if Some (e_id e) = eid
                            then e\<lparr>e_available_seats := e_available_seats e + n\<rparr>
                            else e) (events d)\<rparr>"

text \<open>
  The row of the \<^verbatim>\<open>INSERT INTO orders\<close>, with the columns the statement leaves out
  at \<^verbatim>\<open>NULL\<close> and the timestamps at \<^verbatim>\<open>NOW()\<close>, and the object the tool returns for it.
\<close>

definition new_order :: "env \<Rightarrow> create_context \<Rightarrow> jsstring \<Rightarrow> int \<Rightarrow> int \<Rightarrow> order_row" where
  "new_order env ctx orderCode seatsCount totalPrice =
     \<lparr>o_id = new_id env,
      o_order_code = orderCode,
      o_event_id = Some (c_eventId ctx),
      o_event_template_id = None,
      o_link_code = None,
      o_admin_id = None,
      o_customer_name = c_customerName ctx,
      o_customer_phone = c_customerPhone ctx,
      o_customer_email = nonempty (c_customerEmail ctx),
      o_telegram_chat_id = nonempty (c_telegramChatId ctx),
      o_telegram_username = nonempty (c_telegramUsername ctx),
      o_seats_count = seatsCount,
      o_total_price = totalPrice,
      o_status = ascii ''pending'',
      o_payment_status = ascii ''pending'',
      o_tickets_json = None,
      o_created_at = now env,
      o_updated_at = now env\<rparr>"

definition order_created ::
  "env \<Rightarrow> create_context \<Rightarrow> event_row \<Rightarrow> jsstring \<Rightarrow> jsstring \<Rightarrow> int \<Rightarrow> int \<Rightarrow> create_result" where
  "order_created env ctx event city_name orderCode seatsCount totalPrice =
     \<lparr>success = True,
      details = Some
        \<lparr>r_orderCode = orderCode,
         r_orderId = new_id env,
         r_eventName = e_name event,
         r_eventDate = e_date event,
         r_eventTime = (case nonempty (e_time event) of None \<Rightarrow> ascii ''00:00'' | Some t \<Rightarrow> t),
         r_cityName = city_name,
         r_customerName = c_customerName ctx,
         r_customerPhone = c_customerPhone ctx,
         r_customerEmail = c_customerEmail ctx,
         r_seatsCount = seatsCount,
         r_totalPrice = totalPrice\<rparr>,
      message = OrderCreated orderCode (e_name event) city_name totalPrice\<rparr>"

text \<open>
  The function that \<^verbatim>\<open>execute\<close> passes to \<^verbatim>\<open>withTransaction\<close>: call 2 is the
  \<^verbatim>\<open>SELECT ... FOR UPDATE\<close>, call 3 the \<^verbatim>\<open>INSERT INTO orders\<close>, call 4 the
  \<^verbatim>\<open>UPDATE events\<close>.
\<close>

definition create_order_tx ::
  "env \<Rightarrow> create_context \<Rightarrow> db \<Rightarrow> (exn + create_result) \<times> db \<times> nat" where
  "create_order_tx env ctx w =
     (if db_fails env 2 then (Inl (DbError 2), w, 3)
      else (case select_event_for_update w (c_eventId ctx) of
              [] \<Rightarrow> (Inr (failure EventNotFound), w, 3)
            | (event, category_name, city_name) # rest \<Rightarrow>
                (let seatsCount = (if c_seatsCount ctx = 0 then 1 else c_seatsCount ctx)
                 in if e_available_seats event < seatsCount
                    then (Inr (failure (NotEnoughSeats (e_available_seats event))), w, 3)
                    else
                      (let orderCode = generateOrderCode (random env);
                           totalPrice = (case c_totalPrice ctx of
                                           None \<Rightarrow> e_price event * seatsCount
                                         | Some p \<Rightarrow>
                                             if p = 0 then e_price event * seatsCount else p)
                       in if db_fails env 3 then (Inl (DbError 3), w, 4)
                          else
                            (let w1 = insert_order
                                        (new_order env ctx orderCode seatsCount totalPrice) w
                             in if db_fails env 4 then (Inl (DbError 4), w1, 5)
                                else
                                  (Inr (order_created env ctx event city_name orderCode
                                          seatsCount totalPrice),
                                   add_available_seats (- seatsCount) (Some (c_eventId ctx)) w1,
                                   5))))))"

definition createOrderTool_execute ::
  "env \<Rightarrow> create_context \<Rightarrow> db \<Rightarrow> create_result \<times> db" where
  "createOrderTool_execute env ctx d =
     (if \<not> dbPool env then (failure DbUnavailableRetry, d)
      else (case withTransaction (db_fails env) (create_order_tx env ctx) d of
              (Inr r, d') \<Rightarrow> (r, d')
            | (Inl error, d') \<Rightarrow> (failure CreateOrderFailed, d')))"

section \<open>The handler of POST /api/create-order\<close>

text \<open>
  \<open>invalid_text v n\<close> is the handler's test
  \<^verbatim>\<open>!v || typeof v !== "string" || v.trim().length < n\<close>.
\<close>

definition invalid_text :: "json option \<Rightarrow> nat \<Rightarrow> bool" where
  "invalid_text v n =
     (\<not> truthy v \<or> (case v of Some (JStr s) \<Rightarrow> length (trim s) < n | _ \<Rightarrow> True))"

text \<open>
  \<^verbatim>\<open>body.customerEmail?.trim() || undefined\<close>: a value other than a string, \<^verbatim>\<open>null\<close> and
  \<^verbatim>\<open>undefined\<close> has no method \<^verbatim>\<open>trim\<close>, and the call throws.
\<close>

definition optional_trim :: "json option \<Rightarrow> exn + jsstring option" where
  "optional_trim v =
     (case v of
        None \<Rightarrow> Inr None
      | Some JNull \<Rightarrow> Inr None
      | Some (JStr s) \<Rightarrow> Inr (nonempty (Some (trim s)))
      | Some other \<Rightarrow> Inl TypeError)"

definition or_text :: "jsstring \<Rightarrow> jsstring \<Rightarrow> jsstring" where
  "or_text s dflt = (if s = [] then dflt else s)"

text \<open>The handler's default event name, a Russian word of eleven letters.\<close>

definition default_event_name :: jsstring where
  "default_event_name =
     [0x41C, 0x435, 0x440, 0x43E, 0x43F, 0x440, 0x438, 0x44F, 0x442, 0x438, 0x435]"

text \<open>
  \<^verbatim>\<open>body.totalPrice ? parseInt(body.totalPrice) : undefined\<close>. The tool treats
  \<^verbatim>\<open>undefined\<close> and \<^verbatim>\<open>NaN\<close> alike (\<open>Unset\<close>).
\<close>

datatype price_arg = Unset | Finite int | Infinite

definition total_price_arg :: "json option \<Rightarrow> exn + price_arg" where
  "total_price_arg v =
     (if \<not> truthy v then Inr Unset
      else (case parseInt v of
              Inl error \<Rightarrow> Inl error
            | Inr None \<Rightarrow> Inr Unset
            | Inr (Some n) \<Rightarrow>
                (case nearest_double n of None \<Rightarrow> Inr Infinite | Some p \<Rightarrow> Inr (Finite p))))"

text \<open>
  The context the handler passes to the tool, from a body that has passed validation.
\<close>

definition order_context ::
  "json \<Rightarrow> int \<Rightarrow> int \<Rightarrow> jsstring option \<Rightarrow> int option \<Rightarrow> create_context" where
  "order_context body eventId seatsCount customerEmail totalPrice =
     \<lparr>c_eventId = eventId,
      c_customerName =
        (case get_field body (ascii ''customerName'') of Some (JStr s) \<Rightarrow> trim s | _ \<Rightarrow> []),
      c_customerPhone =
        (case get_field body (ascii ''customerPhone'') of Some (JStr s) \<Rightarrow> trim s | _ \<Rightarrow> []),
      c_customerEmail = customerEmail,
      c_seatsCount = seatsCount,
      c_totalPrice = totalPrice,
      c_telegramChatId = None,
      c_telegramUsername = None\<rparr>"

text \<open>
  The handler's call of the tool. The tool takes an integer event identifier and a
  finite price; the handler can pass it any number. An \<^verbatim>\<open>eventId\<close> that is not an
  integer is a parameter that the \<^verbatim>\<open>SELECT ... FOR UPDATE\<close>, call 2, rejects
  (\<open>integer_param\<close>), and an infinite price is one that the \<^verbatim>\<open>INSERT INTO orders\<close>,
  call 3, rejects: the call throws, inside the transaction.
\<close>

definition rejecting :: "nat \<Rightarrow> env \<Rightarrow> env" where
  "rejecting k env = env\<lparr>db_fails := (db_fails env)(k := True)\<rparr>"

definition execute_for_request ::
  "env \<Rightarrow> json \<Rightarrow> int \<Rightarrow> jsstring option \<Rightarrow> price_arg \<Rightarrow> db \<Rightarrow> create_result \<times> db" where
  "execute_for_request env body seatsCount customerEmail totalPrice d =
     (case (case get_field body (ascii ''eventId'') of
              Some (JNum s) \<Rightarrow> integer_param s
            | _ \<Rightarrow> None) of
        None \<Rightarrow>
          createOrderTool_execute (rejecting 2 env)
            (order_context body 0 seatsCount customerEmail None) d
      | Some eventId \<Rightarrow>
          (case totalPrice of
             Unset \<Rightarrow>
               createOrderTool_execute env
                 (order_context body eventId seatsCount customerEmail None) d
           | Finite p \<Rightarrow>
               createOrderTool_execute env
                 (order_context body eventId seatsCount customerEmail (Some p)) d
           | Infinite \<Rightarrow>
               createOrderTool_execute (rejecting 3 env)
                 (order_context body eventId seatsCount customerEmail None) d))"

text \<open>The notification the handler builds from the tool's result.\<close>

definition order_notification :: "created \<Rightarrow> json option \<Rightarrow> notification" where
  "order_notification r tickets =
     \<lparr>n_orderId = r_orderId r,
      n_orderCode = r_orderCode r,
      n_eventName = or_text (r_eventName r) default_event_name,
      n_eventDate = r_eventDate r,
      n_eventTime = r_eventTime r,
      n_cityName = r_cityName r,
      n_customerName = r_customerName r,
      n_customerPhone = r_customerPhone r,
      n_customerEmail = r_customerEmail r,
      n_seatsCount = (if r_seatsCount r = 0 then 1 else r_seatsCount r),
      n_totalPrice = r_totalPrice r,
      n_tickets = tickets\<rparr>"

text \<open>
  \<^verbatim>\<open>if (result.success && result.orderId && result.orderCode) { ... }\<close>: the
  notifications for an order that has been created.
\<close>

definition notify_created :: "env \<Rightarrow> json \<Rightarrow> create_result \<Rightarrow> io \<Rightarrow> io" where
  "notify_created env body result w =
     (case details result of
        None \<Rightarrow> w
      | Some r \<Rightarrow>
          (if success result \<and> r_orderId r \<noteq> 0 \<and> r_orderCode r \<noteq> []
           then send_order_notifications env
                  (order_notification r (get_field body (ascii ''tickets''))) w
           else w))"

text \<open>
  The request is \<open>None\<close> when \<^verbatim>\<open>c.req.json()\<close> throws. The result is the HTTP status with
  the JSON body, the tables and the outside effects. The validation failures return
  before the tool is called; whatever throws before the tool has returned is caught by
  the outer \<^verbatim>\<open>catch\<close>, which answers 500.
\<close>

definition create_order_handler ::
  "env \<Rightarrow> json option \<Rightarrow> db \<Rightarrow> io \<Rightarrow> (nat \<times> create_result) \<times> db \<times> io" where
  "create_order_handler env request d w =
     (case request of
        None \<Rightarrow>
          ((500, failure CreateOrderError), d, log_error (CreateOrderHandlerError SyntaxError) w)
      | Some body \<Rightarrow>
          (if body = JNull
           then ((500, failure CreateOrderError), d,
                 log_error (CreateOrderHandlerError TypeError) w)
           else if \<not> truthy (get_field body (ascii ''eventId''))
                   \<or> \<not> is_number (get_field body (ascii ''eventId''))
           then ((400, failure EventNotSpecified), d, w)
           else if invalid_text (get_field body (ascii ''customerName'')) 2
           then ((400, failure NameRequired), d, w)
           else if invalid_text (get_field body (ascii ''customerPhone'')) 5
           then ((400, failure PhoneRequired), d, w)
           else
             (case parseInt (get_field body (ascii ''seatsCount'')) of
                Inl error \<Rightarrow>
                  ((500, failure CreateOrderError), d,
                   log_error (CreateOrderHandlerError error) w)
              | Inr None \<Rightarrow> ((400, failure SeatsOutOfRange), d, w)
              | Inr (Some seatsCount) \<Rightarrow>
                  (if seatsCount < 1 \<or> seatsCount > 10
                   then ((400, failure SeatsOutOfRange), d, w)
                   else
                     (case optional_trim (get_field body (ascii ''customerEmail'')) of
                        Inl error \<Rightarrow>
                          ((500, failure CreateOrderError), d,
                           log_error (CreateOrderHandlerError error) w)
                      | Inr customerEmail \<Rightarrow>
                          (case total_price_arg (get_field body (ascii ''totalPrice'')) of
                             Inl error \<Rightarrow>
                               ((500, failure CreateOrderError), d,
                                log_error (CreateOrderHandlerError error) w)
                           | Inr totalPrice \<Rightarrow>
                               (case execute_for_request env body seatsCount customerEmail
                                       totalPrice d of
                                  (result, d') \<Rightarrow>
                                    ((200, result), d',
                                     notify_created env body result w))))))))"

section \<open>manageOrderTool\<close>

datatype action = Get | ConfirmPayment | RejectPayment | Cancel | ListPending

text \<open>
  The order is looked up by \<^verbatim>\<open>orderId\<close> when that is truthy and by \<^verbatim>\<open>orderCode\<close>
  otherwise.
\<close>

datatype order_ref = ById int | ByCode jsstring

text \<open>
  The tool's messages, by template: \<open>PendingFound n\<close> gives the number of orders found,
  \<open>PaymentConfirmed\<close> the order code, the customer and the total price.
\<close>

datatype manage_message =
    ManageDbUnavailable
  | PendingFound nat
  | OrderRefRequired
  | OrderNotFound order_ref
  | OrderFound jsstring
  | PaymentConfirmed jsstring jsstring int
  | PaymentRejected jsstring
  | OrderCancelled jsstring
  | UnknownAction
  | ManageError

record manage_context =
  m_action :: action
  m_orderCode :: "jsstring option"
  m_orderId :: "int option"

text \<open>
  A row of the tool's two lookups: the columns of the order with the names and dates the
  joins add. \<open>order_obj\<close> is the object the tool returns for it; \<open>ob_tickets\<close> holds the
  text that \<^verbatim>\<open>JSON.parse\<close> is applied to, and timestamps stay numbers.
\<close>

record joined_row =
  jr_order :: order_row
  jr_event_name :: jsstring
  jr_event_date :: "jsstring option"
  jr_event_time :: "jsstring option"
  jr_category_name :: jsstring
  jr_city_name :: "jsstring option"

record order_obj =
  ob_id :: int
  ob_orderCode :: jsstring
  ob_eventName :: jsstring
  ob_categoryName :: jsstring
  ob_cityName :: "jsstring option"
  ob_eventDate :: "jsstring option"
  ob_eventTime :: "jsstring option"
  ob_customerName :: jsstring
  ob_customerPhone :: jsstring
  ob_customerEmail :: "jsstring option"
  ob_telegramUsername :: "jsstring option"
  ob_seatsCount :: int
  ob_totalPrice :: int
  ob_status :: jsstring
  ob_paymentStatus :: jsstring
  ob_createdAt :: int
  ob_tickets :: "jsstring option"

record pending_summary =
  ps_id :: int
  ps_orderCode :: jsstring
  ps_eventName :: jsstring
  ps_customerName :: jsstring
  ps_totalPrice :: int
  ps_status :: jsstring
  ps_paymentStatus :: jsstring

record manage_result =
  m_success :: bool
  m_order :: "order_obj option"
  m_orders :: "pending_summary list option"
  m_message :: manage_message

definition manage_failure :: "manage_message \<Rightarrow> manage_result" where
  "manage_failure m = \<lparr>m_success = False, m_order = None, m_orders = None, m_message = m\<rparr>"

definition matches_ref :: "order_ref \<Rightarrow> order_row \<Rightarrow> bool" where
  "matches_ref r od = (case r of ById i \<Rightarrow> o_id od = i | ByCode c \<Rightarrow> o_order_code od = c)"

text \<open>
  The rows a \<^verbatim>\<open>LEFT JOIN\<close> pairs with one left-hand row: the matches, or one row of
  \<^verbatim>\<open>NULL\<close>s.
\<close>

definition left_join :: "'a list \<Rightarrow> 'a option list" where
  "left_join xs = (if xs = [] then [None] else map Some xs)"

text \<open>
  \<^verbatim>\<open>... WHERE o.payment_status = 'pending' ORDER BY o.created_at DESC LIMIT 20\<close>.
\<close>

definition select_pending :: "db \<Rightarrow> (order_row \<times> event_row) list" where
  "select_pending d =
     take 20 (rev (sort_key (\<lambda>(od, e). o_created_at od)
       [(od, e). od \<leftarrow> orders d, e \<leftarrow> events d,
          o_event_id od = Some (e_id e) \<and> o_payment_status od = ascii ''pending'']))"

text \<open>
  The first lookup joins the order with its event, the event's category and city; the
  second, tried when the first finds nothing, joins it with its event template.
\<close>

definition select_order_with_event :: "db \<Rightarrow> order_ref \<Rightarrow> joined_row list" where
  "select_order_with_event d r =
     [\<lparr>jr_order = od, jr_event_name = e_name e, jr_event_date = Some (e_date e),
       jr_event_time = e_time e, jr_category_name = snd c, jr_city_name = Some (snd ci)\<rparr>.
        od \<leftarrow> orders d, e \<leftarrow> events d, c \<leftarrow> categories d, ci \<leftarrow> cities d,
        o_event_id od = Some (e_id e) \<and> e_category_id e = fst c
        \<and> e_city_id e = Some (fst ci) \<and> matches_ref r od]"

definition select_order_with_template :: "db \<Rightarrow> order_ref \<Rightarrow> joined_row list" where
  "select_order_with_template d r =
     [\<lparr>jr_order = od, jr_event_name = et_name et,
       jr_event_date = (case gl of None \<Rightarrow> None | Some g \<Rightarrow> gl_event_date g),
       jr_event_time = (case gl of None \<Rightarrow> None | Some g \<Rightarrow> gl_event_time g),
       jr_category_name = snd cat,
       jr_city_name = (case ci of None \<Rightarrow> None | Some x \<Rightarrow> Some (snd x))\<rparr>.
        od \<leftarrow> orders d, et \<leftarrow> event_templates d, cat \<leftarrow> categories d,
        gl \<leftarrow> left_join [g. g \<leftarrow> generated_links d, Some (gl_link_code g) = o_link_code od],
        ci \<leftarrow> left_join [x. x \<leftarrow> cities d,
                            (case gl of None \<Rightarrow> False | Some g \<Rightarrow> gl_city_id g = Some (fst x))],
        o_event_template_id od = Some (et_id et) \<and> et_category_id et = fst cat
        \<and> matches_ref r od]"

text \<open>
  \<^verbatim>\<open>UPDATE orders SET ... WHERE id = $1\<close>.
\<close>

definition update_orders :: "int \<Rightarrow> (order_row \<Rightarrow> order_row) \<Rightarrow> db \<Rightarrow> db" where
  "update_orders oid f d = d\<lparr>orders := map (\<lambda>od. if o_id od = oid then f od else od) (orders d)\<rparr>"

definition order_of_row :: "joined_row \<Rightarrow> order_obj" where
  "order_of_row row =
     \<lparr>ob_id = o_id (jr_order row),
      ob_orderCode = o_order_code (jr_order row),
      ob_eventName = jr_event_name row,
      ob_categoryName = jr_category_name row,
      ob_cityName = jr_city_name row,
      ob_eventDate = jr_event_date row,
      ob_eventTime = jr_event_time row,
      ob_customerName = o_customer_name (jr_order row),
      ob_customerPhone = o_customer_phone (jr_order row),
      ob_customerEmail = o_customer_email (jr_order row),
      ob_telegramUsername = o_telegram_username (jr_order row),
      ob_seatsCount = o_seats_count (jr_order row),
      ob_totalPrice = o_total_price (jr_order row),
      ob_status = o_status (jr_order row),
      ob_paymentStatus = o_payment_status (jr_order row),
      ob_createdAt = o_created_at (jr_order row),
      ob_tickets = nonempty (o_tickets_json (jr_order row))\<rparr>"

text \<open>
  The actions on the order found, \<open>k\<close> being the number of the next database call. Every
  statement goes through \<^verbatim>\<open>dbPool.query\<close> and is committed on its own: when a later call
  throws, the tables keep what the earlier ones have written. The branch for
  \<open>ListPending\<close> is the tool's final \<^verbatim>\<open>return\<close>, which no action of the input schema
  reaches.
\<close>

definition manage_found ::
  "env \<Rightarrow> action \<Rightarrow> joined_row \<Rightarrow> nat \<Rightarrow> db \<Rightarrow> (exn + manage_result) \<times> db" where
  "manage_found env act row k d =
     (let order = order_of_row row in
      case act of
        Get \<Rightarrow>
          (Inr \<lparr>m_success = True, m_order = Some order, m_orders = None,
                m_message = OrderFound (ob_orderCode order)\<rparr>, d)
      | ConfirmPayment \<Rightarrow>
          (if db_fails env k then (Inl (DbError k), d)
           else
             (let d1 = update_orders (ob_id order)
                         (\<lambda>od. od\<lparr>o_payment_status := ascii ''confirmed'',
                                 o_status := ascii ''confirmed'',
                                 o_updated_at := now env\<rparr>) d
              in (Inr \<lparr>m_success = True,
                       m_order = Some (order\<lparr>ob_paymentStatus := ascii ''confirmed'',
                                               ob_status := ascii ''confirmed''\<rparr>),
                       m_orders = None,
                       m_message = PaymentConfirmed (ob_orderCode order)
                                     (ob_customerName order) (ob_totalPrice order)\<rparr>, d1)))
      | RejectPayment \<Rightarrow>
          (if db_fails env k then (Inl (DbError k), d)
           else
             (let d1 = update_orders (ob_id order)
                         (\<lambda>od. od\<lparr>o_payment_status := ascii ''rejected'',
                                 o_status := ascii ''rejected'',
                                 o_updated_at := now env\<rparr>) d
              in if db_fails env (Suc k) then (Inl (DbError (Suc k)), d1)
                 else
                   (let d2 = add_available_seats (o_seats_count (jr_order row))
                               (o_event_id (jr_order row)) d1
                    in (Inr \<lparr>m_success = True,
                             m_order = Some (order\<lparr>ob_paymentStatus := ascii ''rejected'',
                                                     ob_status := ascii ''rejected''\<rparr>),
                             m_orders = None,
                             m_message = PaymentRejected (ob_orderCode order)\<rparr>, d2))))
      | Cancel \<Rightarrow>
          (if db_fails env k then (Inl (DbError k), d)
           else
             (let d1 = update_orders (ob_id order)
                         (\<lambda>od. od\<lparr>o_status := ascii ''cancelled'', o_updated_at := now env\<rparr>) d
              in if o_payment_status (jr_order row) \<noteq> ascii ''rejected''
                 then
                   (if db_fails env (Suc k) then (Inl (DbError (Suc k)), d1)
                    else
                      (Inr \<lparr>m_success = True,
                            m_order = Some (order\<lparr>ob_status := ascii ''cancelled''\<rparr>),
                            m_orders = None,
                            m_message = OrderCancelled (ob_orderCode order)\<rparr>,
                       add_available_seats (o_seats_count (jr_order row))
                         (o_event_id (jr_order row)) d1))
                 else
                   (Inr \<lparr>m_success = True,
                         m_order = Some (order\<lparr>ob_status := ascii ''cancelled''\<rparr>),
                         m_orders = None,
                         m_message = OrderCancelled (ob_orderCode order)\<rparr>, d1)))
      | ListPending \<Rightarrow> (Inr (manage_failure UnknownAction), d))"

definition order_ref_of :: "manage_context \<Rightarrow> order_ref option" where
  "order_ref_of ctx =
     (case m_orderId ctx of
        Some i \<Rightarrow> (if i \<noteq> 0 then Some (ById i) else map_option ByCode (nonempty (m_orderCode ctx)))
      | None \<Rightarrow> map_option ByCode (nonempty (m_orderCode ctx)))"

definition not_found_ref :: "manage_context \<Rightarrow> order_ref" where
  "not_found_ref ctx =
     (case nonempty (m_orderCode ctx) of
        Some c \<Rightarrow> ByCode c
      | None \<Rightarrow> ById (case m_orderId ctx of Some i \<Rightarrow> i | None \<Rightarrow> 0))"

text \<open>
  The body of the tool's \<^verbatim>\<open>try\<close>: call 0 is the first lookup (or the list of pending
  orders), call 1 the second lookup when the first is empty.
\<close>

definition manage_try :: "env \<Rightarrow> manage_context \<Rightarrow> db \<Rightarrow> (exn + manage_result) \<times> db" where
  "manage_try env ctx d =
     (if m_action ctx = ListPending
      then
        (if db_fails env 0 then (Inl (DbError 0), d)
         else
           (let found = map (\<lambda>(od, e).
                          \<lparr>ps_id = o_id od, ps_orderCode = o_order_code od,
                           ps_eventName = e_name e, ps_customerName = o_customer_name od,
                           ps_totalPrice = o_total_price od, ps_status = o_status od,
                           ps_paymentStatus = o_payment_status od\<rparr>) (select_pending d)
            in (Inr \<lparr>m_success = True, m_order = None, m_orders = Some found,
                     m_message = PendingFound (length found)\<rparr>, d)))
      else
        (case order_ref_of ctx of
           None \<Rightarrow> (Inr (manage_failure OrderRefRequired), d)
         | Some r \<Rightarrow>
             (if db_fails env 0 then (Inl (DbError 0), d)
              else
                (case select_order_with_event d r of
                   row # rest \<Rightarrow> manage_found env (m_action ctx) row 1 d
                 | [] \<Rightarrow>
                     (if db_fails env 1 then (Inl (DbError 1), d)
                      else
                        (case select_order_with_template d r of
                           row # rest \<Rightarrow> manage_found env (m_action ctx) row 2 d
                         | [] \<Rightarrow> (Inr (manage_failure (OrderNotFound (not_found_ref ctx))), d)))))))"

definition manageOrderTool_execute :: "env \<Rightarrow> manage_context \<Rightarrow> db \<Rightarrow> manage_result \<times> db" where
  "manageOrderTool_execute env ctx d =
     (if \<not> dbPool env then (manage_failure ManageDbUnavailable, d)
      else (case manage_try env ctx d of
              (Inr r, d') \<Rightarrow> (r, d')
            | (Inl error, d') \<Rightarrow> (manage_failure ManageError, d')))"

text \<open>
  The row the tool works on: the first row of the first lookup that finds one. An order
  exists for the tool exactly when \<open>lookup_order\<close> finds it.
\<close>

definition lookup_order :: "db \<Rightarrow> order_ref \<Rightarrow> joined_row option" where
  "lookup_order d r =
     (case select_order_with_event d r of
        row # rest \<Rightarrow> Some row
      | [] \<Rightarrow> (case select_order_with_template d r of
                 row # rest \<Rightarrow> Some row
               | [] \<Rightarrow> None))"

section \<open>The handler of POST /api/create-ticket-order\<close>

text \<open>
  The handler reads the fields of the body without validating them; the model takes a
  body whose fields have the types the handler expects. Call 0 is the \<^verbatim>\<open>SELECT\<close> by
  slug, call 1 the \<^verbatim>\<open>INSERT INTO orders\<close> (or \<^verbatim>\<open>pool.end()\<close> on the two early
  returns), call 2 the \<^verbatim>\<open>UPDATE events\<close>, call 3 \<^verbatim>\<open>pool.end()\<close>; all of them go
  through \<^verbatim>\<open>pool.query\<close>, outside any transaction. The order code is \<^verbatim>\<open>TK\<close> followed
  by \<^verbatim>\<open>Date.now().toString(36).toUpperCase()\<close>.
\<close>

record ticket_body =
  tb_eventSlug :: jsstring
  tb_seatsCount :: int
  tb_customerName :: jsstring
  tb_customerPhone :: jsstring
  tb_customerEmail :: "jsstring option"

record ticket_response =
  tr_success :: bool
  tr_message :: "message option"
  tr_orderCode :: "jsstring option"

definition select_event_by_slug :: "db \<Rightarrow> jsstring \<Rightarrow> (event_row \<times> jsstring option) list" where
  "select_event_by_slug d slug =
     [(e, map_option snd c). e \<leftarrow> events d,
        c \<leftarrow> left_join [x. x \<leftarrow> cities d, e_city_id e = Some (fst x)],
        e_slug e = slug]"

definition ticket_order_row ::
  "env \<Rightarrow> ticket_body \<Rightarrow> event_row \<Rightarrow> jsstring \<Rightarrow> int \<Rightarrow> order_row" where
  "ticket_order_row env body event orderCode totalPrice =
     \<lparr>o_id = new_id env,
      o_order_code = orderCode,
      o_event_id = Some (e_id event),
      o_event_template_id = None,
      o_link_code = None,
      o_admin_id = e_admin_id event,
      o_customer_name = tb_customerName body,
      o_customer_phone = tb_customerPhone body,
      o_customer_email = tb_customerEmail body,
      o_telegram_chat_id = None,
      o_telegram_username = None,
      o_seats_count = tb_seatsCount body,
      o_total_price = totalPrice,
      o_status = ascii ''pending'',
      o_payment_status = default_payment_status env,
      o_tickets_json = None,
      o_created_at = now env,
      o_updated_at = now env\<rparr>"

definition ticket_notification ::
  "env \<Rightarrow> ticket_body \<Rightarrow> event_row \<Rightarrow> jsstring option \<Rightarrow> jsstring \<Rightarrow> int \<Rightarrow> notification" where
  "ticket_notification env body event city_name orderCode totalPrice =
     \<lparr>n_orderId = new_id env,
      n_orderCode = orderCode,
      n_eventName = e_name event,
      n_eventDate = e_date event,
      n_eventTime = (case e_time event of None \<Rightarrow> [] | Some t \<Rightarrow> t),
      n_cityName = (case city_name of None \<Rightarrow> [] | Some c \<Rightarrow> c),
      n_customerName = tb_customerName body,
      n_customerPhone = tb_customerPhone body,
      n_customerEmail = tb_customerEmail body,
      n_seatsCount = tb_seatsCount body,
      n_totalPrice = totalPrice,
      n_tickets = None\<rparr>"

definition ticket_failure :: "message \<Rightarrow> ticket_response" where
  "ticket_failure m = \<lparr>tr_success = False, tr_message = Some m, tr_orderCode = None\<rparr>"

definition ticket_order_try ::
  "env \<Rightarrow> ticket_body \<Rightarrow> db \<Rightarrow> io \<Rightarrow> (exn + nat \<times> ticket_response) \<times> db \<times> io" where
  "ticket_order_try env body d w =
     (if db_fails env 0 then (Inl (DbError 0), d, w)
      else
        (case select_event_by_slug d (tb_eventSlug body) of
           [] \<Rightarrow>
             (if db_fails env 1 then (Inl (DbError 1), d, w)
              else (Inr (200, ticket_failure EventNotFound), d, w))
         | (event, city_name) # rest \<Rightarrow>
             (if e_available_seats event < tb_seatsCount body
              then
                (if db_fails env 1 then (Inl (DbError 1), d, w)
                 else (Inr (200, ticket_failure NotEnoughSeatsPlain), d, w))
              else
                (let orderCode = ascii ''TK'' @ map toUpperCase_unit (number_toString 36 (now env));
                     totalPrice = e_price event * tb_seatsCount body
                 in if db_fails env 1 then (Inl (DbError 1), d, w)
                    else
                      (let d1 = insert_order
                                  (ticket_order_row env body event orderCode totalPrice) d
                       in if db_fails env 2 then (Inl (DbError 2), d1, w)
                          else
                            (let d2 = add_available_seats (- tb_seatsCount body)
                                        (Some (e_id event)) d1
                             in if db_fails env 3 then (Inl (DbError 3), d2, w)
                                else
                                  (Inr (200, \<lparr>tr_success = True, tr_message = None,
                                              tr_orderCode = Some orderCode\<rparr>),
                                   d2,
                                   send_order_notifications env
                                     (ticket_notification env body event city_name orderCode
                                        totalPrice) w)))))))"

definition create_ticket_order_handler ::
  "env \<Rightarrow> ticket_body \<Rightarrow> db \<Rightarrow> io \<Rightarrow> (nat \<times> ticket_response) \<times> db \<times> io" where
  "create_ticket_order_handler env body d w =
     (case ticket_order_try env body d w of
        (Inr response, d', w') \<Rightarrow> (response, d', w')
      | (Inl error, d', w') \<Rightarrow>
          ((500, ticket_failure TicketOrderError), d',
           log_error (TicketOrderHandlerError error) w'))"

section \<open>The refund branch of the Telegram webhook\<close>

text \<open>
  The branch of the handler of \<^verbatim>\<open>/webhooks/telegram/action\<close> that is taken when the
  callback data starts with \<^verbatim>\<open>refund_\<close>. The data is split at \<^verbatim>\<open>_\<close>: part 1 is the
  action, part 2 the refund code. Call 0 is the \<^verbatim>\<open>SELECT\<close>, then come the \<^verbatim>\<open>UPDATE\<close>
  (when the link is still open) and \<^verbatim>\<open>pool.end()\<close>. The handler answers
  \<^verbatim>\<open>c.text("OK", 200)\<close> on every path.
\<close>

record callback_query =
  cq_id :: jsstring
  cq_data :: jsstring
  cq_message_id :: "int option"
  cq_chat_id :: "int option"

definition is_refund_callback :: "callback_query \<Rightarrow> bool" where
  "is_refund_callback cq = startsWith (cq_data cq) (ascii ''refund_'')"

definition select_refund :: "db \<Rightarrow> jsstring option \<Rightarrow> refund_row list" where
  "select_refund d code = [r. r \<leftarrow> refund_links d, Some (rf_refund_code r) = code]"

definition update_refund :: "jsstring \<Rightarrow> int \<Rightarrow> jsstring option \<Rightarrow> db \<Rightarrow> db" where
  "update_refund newStatus t code d =
     d\<lparr>refund_links := map (\<lambda>r. if Some (rf_refund_code r) = code
                                  then r\<lparr>rf_status := newStatus, rf_processed_at := Some t\<rparr>
                                  else r) (refund_links d)\<rparr>"

definition refund_callback_try ::
  "env \<Rightarrow> callback_query \<Rightarrow> db \<Rightarrow> io \<Rightarrow> (exn + unit) \<times> db \<times> io" where
  "refund_callback_try env cq d w =
     (let parts = split_on 0x5F (cq_data cq);
          refundAction = nth_opt parts 1;
          refundCode = nth_opt parts 2
      in if db_fails env 0 then (Inl (DbError 0), d, w)
         else
           (case select_refund d refundCode of
              [] \<Rightarrow>
                (if db_fails env 1 then (Inl (DbError 1), d, w)
                 else (Inr (), d, snd (answerCallbackQuery env (cq_id cq) LinkNotFound w)))
            | refund # rest \<Rightarrow>
                (if rf_status refund = ascii ''approved'' \<or> rf_status refund = ascii ''rejected''
                 then
                   (if db_fails env 1 then (Inl (DbError 1), d, w)
                    else (Inr (), d,
                          snd (answerCallbackQuery env (cq_id cq)
                                 (AlreadyProcessed (rf_status refund = ascii ''approved'')) w)))
                 else
                   (let approve = (refundAction = Some (ascii ''approve''));
                        newStatus = (if approve then ascii ''approved'' else ascii ''rejected'')
                    in if db_fails env 1 then (Inl (DbError 1), d, w)
                       else
                         (let d1 = update_refund newStatus (now env) refundCode d
                          in if db_fails env 2 then (Inl (DbError 2), d1, w)
                             else
                               (let refundData =
                                      \<lparr>rd_refundCode = rf_refund_code refund,
                                       rd_amount = rf_amount refund,
                                       rd_customerName = rf_customer_name refund,
                                       rd_refundNumber = rf_refund_number refund\<rparr>;
                                    w1 = (if approve
                                          then snd (sendRefundApprovedNotification env refundData w)
                                          else snd (sendRefundRejectedNotification env refundData w));
                                    w2 = snd (answerCallbackQuery env (cq_id cq)
                                                (if approve then RefundApprovedNotice
                                                 else RefundRejectedNotice) w1)
                                in if getBot env
                                   then
                                     (case tg_api env
                                             (EditMessageText (cq_chat_id cq) (cq_message_id cq)
                                                (RefundStatusText approve (rf_refund_code refund)
                                                   (rf_amount refund) (now env))) w2 of
                                        (Inr u, w3) \<Rightarrow> (Inr (), d1, w3)
                                      | (Inl error, w3) \<Rightarrow> (Inl error, d1, w3))
                                   else (Inr (), d1, getBot_logged env w2)))))))"

definition refund_callback ::
  "env \<Rightarrow> callback_query \<Rightarrow> db \<Rightarrow> io \<Rightarrow> (nat \<times> string) \<times> db \<times> io" where
  "refund_callback env cq d w =
     (case refund_callback_try env cq d w of
        (Inr u, d', w') \<Rightarrow> ((200, ''OK''), d', w')
      | (Inl err, d', w') \<Rightarrow>
          ((200, ''OK''), d',
           snd (answerCallbackQuery env (cq_id cq) ProcessingError
                  (log_error (RefundCallbackError err) w'))))"

section \<open>Admin session tokens\<close>

text \<open>
  \<^verbatim>\<open>adminSessionTokens\<close> is a \<^verbatim>\<open>Map\<close> from token to expiry time, in milliseconds.
  \<open>generateAdminToken token t\<close> is a call at time \<open>t\<close> in which \<^verbatim>\<open>crypto.randomBytes\<close>
  yields \<open>token\<close>. \<^verbatim>\<open>!expiry\<close> holds for a missing entry and for the expiry 0.
\<close>

type_synonym sessions = "jsstring \<rightharpoonup> int"

definition generateAdminToken :: "jsstring \<Rightarrow> int \<Rightarrow> sessions \<Rightarrow> jsstring \<times> sessions" where
  "generateAdminToken token t adminSessionTokens =
     (token, adminSessionTokens(token \<mapsto> t + 24 * 60 * 60 * 1000))"

definition isValidAdminToken :: "jsstring \<Rightarrow> int \<Rightarrow> sessions \<Rightarrow> bool \<times> sessions" where
  "isValidAdminToken token t adminSessionTokens =
     (case adminSessionTokens token of
        None \<Rightarrow> (False, adminSessionTokens)
      | Some expiry \<Rightarrow>
          (if expiry = 0 then (False, adminSessionTokens)
           else if t > expiry then (False, adminSessionTokens(token := None))
           else (True, adminSessionTokens)))"

datatype session_op = Generate jsstring int | Validate jsstring int

fun session_step :: "sessions \<Rightarrow> session_op \<Rightarrow> sessions" where
  "session_step m (Generate token t) = snd (generateAdminToken token t m)"
| "session_step m (Validate token t) = snd (isValidAdminToken token t m)"

definition run_session :: "session_op list \<Rightarrow> sessions" where
  "run_session ops = foldl session_step Map.empty ops"

fun op_time :: "session_op \<Rightarrow> int" where
  "op_time (Generate token t) = t"
| "op_time (Validate token t) = t"

text \<open>
  A history of calls, run from the empty map. \<open>created_at ops token\<close> is the time of the
  last call of \<^verbatim>\<open>generateAdminToken\<close> in \<open>ops\<close> that produced \<open>token\<close>. \<open>clock_ok ops t\<close>:
  the clock never runs backwards through \<open>ops\<close> and up to \<open>t\<close>, and starts at or after
  the epoch.
\<close>

definition generated_times :: "session_op list \<Rightarrow> jsstring \<Rightarrow> int list" where
  "generated_times ops token =
     concat (map (\<lambda>x. case x of
                          Generate tok t \<Rightarrow> if tok = token then [t] else []
                        | Validate tok t \<Rightarrow> []) ops)"

definition created_at :: "session_op list \<Rightarrow> jsstring \<Rightarrow> int option" where
  "created_at ops token =
     (case generated_times ops token of [] \<Rightarrow> None | t # ts \<Rightarrow> Some (last (t # ts)))"

definition clock_ok :: "session_op list \<Rightarrow> int \<Rightarrow> bool" where
  "clock_ok ops t \<longleftrightarrow> sorted (map op_time ops @ [t]) \<and> (\<forall>x \<in> set ops. 0 \<le> op_time x)"

text \<open>
  The invariant of the session map along a history whose clock does not run backwards:
  an entry holds the time of the token's last generation plus 24 hours, and a token that
  has been generated but has no entry expired before the last call.
\<close>

definition session_inv :: "session_op list \<Rightarrow> jsstring \<Rightarrow> bool" where
  "session_inv ops token \<longleftrightarrow>
     (case run_session ops token of
        Some e \<Rightarrow> created_at ops token = Some (e - 24 * 60 * 60 * 1000)
      | None \<Rightarrow>
          (case created_at ops token of
             None \<Rightarrow> True
           | Some t \<Rightarrow> ops \<noteq> [] \<and> t + 24 * 60 * 60 * 1000 < op_time (last ops)))"

section \<open>A sample database and environment\<close>

text \<open>
  One event with five seats left, one pending order of two seats for it, and one refund
  link that has been approved. In \<open>sample_env\<close> every call succeeds; the instances below
  change the fault plans.
\<close>

definition sample_event :: event_row where
  "sample_event =
     \<lparr>e_id = 1, e_name = ascii ''Jazz Night'', e_category_id = 1, e_city_id = Some 1,
      e_date = ascii ''2026-01-15'', e_time = Some (ascii ''19:00:00''), e_price = 1500,
      e_available_seats = 5, e_slug = ascii ''jazz-night'', e_admin_id = None\<rparr>"

definition sample_order :: order_row where
  "sample_order =
     \<lparr>o_id = 7, o_order_code = ascii ''ORD-AAAAAAAA'', o_event_id = Some 1,
      o_event_template_id = None, o_link_code = None, o_admin_id = None,
      o_customer_name = ascii ''Anna Petrova'', o_customer_phone = ascii ''+79001234567'',
      o_customer_email = None, o_telegram_chat_id = None, o_telegram_username = None,
      o_seats_count = 2, o_total_price = 3000, o_status = ascii ''pending'',
      o_payment_status = ascii ''pending'', o_tickets_json = None,
      o_created_at = 1000, o_updated_at = 1000\<rparr>"

definition sample_refund :: refund_row where
  "sample_refund =
     \<lparr>rf_refund_code = ascii ''RFD-ABC234'', rf_status = ascii ''approved'', rf_amount = 3000,
      rf_customer_name = None, rf_refund_number = None, rf_processed_at = Some 900\<rparr>"

definition sample_db :: db where
  "sample_db =
     \<lparr>events = [sample_event], orders = [sample_order],
      categories = [(1, ascii ''Concerts'')], cities = [(1, ascii ''Moscow'')],
      event_templates = [], generated_links = [], refund_links = [sample_refund]\<rparr>"

text \<open>
  The same tables with the event in no city, and with a second, pending refund link
  that has the code of the approved one.
\<close>

definition sample_db_no_city :: db where
  "sample_db_no_city = sample_db\<lparr>events := [sample_event\<lparr>e_city_id := None\<rparr>]\<rparr>"

definition sample_refund_pending :: refund_row where
  "sample_refund_pending = sample_refund\<lparr>rf_status := ascii ''pending'', rf_processed_at := None\<rparr>"

definition sample_db_two_refunds :: db where
  "sample_db_two_refunds = sample_db\<lparr>refund_links := [sample_refund_pending, sample_refund]\<rparr>"

definition sample_env :: env where
  "sample_env =
     \<lparr>dbPool = True, db_fails = (\<lambda>k. False), random = (\<lambda>k. 1 / 2), new_id = 8, now = 2000,
      BOT_TOKEN = Some (ascii ''token''), bot_ctor_ok = True,
      ADMIN_CHAT_ID = Some (ascii ''100''), GROUP_ID = Some (ascii ''-200''),
      tg_fails = (\<lambda>k. False), default_payment_status = ascii ''pending''\<rparr>"

definition sample_context :: create_context where
  "sample_context =
     \<lparr>c_eventId = 1, c_customerName = ascii ''Ivan Ivanov'', c_customerPhone = ascii ''12345'',
      c_customerEmail = None, c_seatsCount = 3, c_totalPrice = None,
      c_telegramChatId = None, c_telegramUsername = None\<rparr>"

text \<open>
  A request body with the given \<^verbatim>\<open>seatsCount\<close> and, when one is given, the field
  \<^verbatim>\<open>tickets\<close>; and a \<^verbatim>\<open>tickets\<close> object whose count is not a number:
  \<^verbatim>\<open>{"standard": {"toString": 1}}\<close>.
\<close>

definition sample_body :: "json \<Rightarrow> json option \<Rightarrow> json" where
  "sample_body seats tickets =
     JObj ([(ascii ''eventId'', JNum (ascii ''1'')),
            (ascii ''customerName'', JStr (ascii ''Ivan Ivanov'')),
            (ascii ''customerPhone'', JStr (ascii ''12345'')), (ascii ''seatsCount'', seats)]
           @ (case tickets of None \<Rightarrow> [] | Some t \<Rightarrow> [(ascii ''tickets'', t)]))"

definition sample_tickets :: json where
  "sample_tickets = JObj [(ascii ''standard'', JObj [(ascii ''toString'', JNum (ascii ''1''))])]"

definition sample_ticket_body :: ticket_body where
  "sample_ticket_body =
     \<lparr>tb_eventSlug = ascii ''jazz-night'', tb_seatsCount = 3,
      tb_customerName = ascii ''Ivan Ivanov'', tb_customerPhone = ascii ''12345'',
      tb_customerEmail = None\<rparr>"

definition sample_callback :: callback_query where
  "sample_callback =
     \<lparr>cq_id = ascii ''cb1'', cq_data = ascii ''refund_reject_RFD-ABC234'',
      cq_message_id = Some 55, cq_chat_id = Some 100\<rparr>"

definition io0 :: io where
  "io0 = \<lparr>sent = [], logged = {#}\<rparr>"

section \<open>The order code\<close>

lemma length_chars: "length chars = 36"
  by (simp add: chars_def ascii_def)

lemma charAt_in_range:
  assumes "0 \<le> i" and "i < int (length s)"
  shows "length (charAt s i) = 1 \<and> set (charAt s i) \<subseteq> set s"
  using assms by (simp add: charAt_def)

lemma random_index_in_range:
  assumes "0 \<le> r" and "r < 1"
  shows "0 \<le> \<lfloor>r * real (length chars)\<rfloor> \<and> \<lfloor>r * real (length chars)\<rfloor> < int (length chars)"
proof -
  have "r * 36 < 36" using assms by simp
  then have "\<lfloor>r * 36\<rfloor> < 36" by linarith
  moreover have "0 \<le> \<lfloor>r * 36\<rfloor>" using assms by simp
  ultimately show ?thesis by (simp add: length_chars)
qed

lemma order_code_loop_shape:
  assumes "\<forall>k<8. 0 \<le> rnd k \<and> rnd k < 1" and "i \<le> 8"
  shows "\<exists>c. order_code_loop rnd i code = code @ c \<and> length c = 8 - i \<and> set c \<subseteq> set chars"
  using assms
proof (induction rnd i code rule: order_code_loop.induct)
  case (1 rnd i code)
  show ?case
  proof (cases "i < 8")
    case True
    let ?d = "charAt chars \<lfloor>rnd i * real (length chars)\<rfloor>"
    from "1.prems" True have r: "0 \<le> rnd i" "rnd i < 1" by auto
    have d: "length ?d = 1 \<and> set ?d \<subseteq> set chars"
      using charAt_in_range random_index_in_range[OF r] by blast
    from "1.IH"[OF True "1.prems"(1)] True obtain c where
      c: "order_code_loop rnd (Suc i) (code @ ?d) = (code @ ?d) @ c"
         "length c = 8 - Suc i" "set c \<subseteq> set chars"
      by auto
    have "order_code_loop rnd i code = code @ (?d @ c)"
      using True c(1) by (subst order_code_loop.simps) simp
    moreover have "length (?d @ c) = 8 - i" using d c(2) True by simp
    moreover have "set (?d @ c) \<subseteq> set chars" using d c(3) by simp
    ultimately show ?thesis by blast
  next
    case False
    with "1.prems" have "i = 8" by simp
    then show ?thesis by (subst order_code_loop.simps) simp
  qed
qed

text \<open>
  Claim C8. Whenever \<^verbatim>\<open>Math.random()\<close> returns values in the interval from 0 up to, but
  not including, 1 (as it is specified to), \<^verbatim>\<open>generateOrderCode\<close> returns the four
  characters \<^verbatim>\<open>ORD-\<close> followed by exactly eight characters, each of them one of the
  upper-case letters A to Z or the digits 0 to 9: twelve characters in all.
\<close>

theorem generateOrderCode_format:
  assumes "\<forall>k<8. 0 \<le> rnd k \<and> rnd k < 1"
  shows "take 4 (generateOrderCode rnd) = ascii ''ORD-''
       \<and> length (drop 4 (generateOrderCode rnd)) = 8
       \<and> set (drop 4 (generateOrderCode rnd))
            \<subseteq> set (ascii ''ABCDEFGHIJKLMNOPQRSTUVWXYZ0123456789'')
       \<and> length (generateOrderCode rnd) = 12"
proof -
  obtain c where c: "order_code_loop rnd 0 [] = c" "length c = 8" "set c \<subseteq> set chars"
    using order_code_loop_shape[OF assms, of 0 "[]"] by auto
  have p: "length (ascii ''ORD-'') = 4" by (simp add: ascii_def)
  show ?thesis
    using c p by (simp add: generateOrderCode_def chars_def)
qed

theorem generateOrderCode_format_witness:
  "generateOrderCode (\<lambda>k. 1 / 2) = ascii ''ORD-SSSSSSSS''
   \<and> take 4 (generateOrderCode (\<lambda>k. 1 / 2)) = ascii ''ORD-''
   \<and> length (generateOrderCode (\<lambda>k. 1 / 2)) = 12"
  using generateOrderCode_format[of "\<lambda>k. 1 / 2"]
  by (simp add: generateOrderCode_def chars_def ascii_def charAt_def order_code_loop.simps)

section \<open>Creating an order\<close>

lemma new_order_pending:
  "o_status (new_order env ctx code n p) = ascii ''pending''"
  "o_payment_status (new_order env ctx code n p) = ascii ''pending''"
  "o_id (new_order env ctx code n p) = new_id env"
  "o_order_code (new_order env ctx code n p) = code"
  by (simp_all add: new_order_def)

lemma order_created_details:
  "success (order_created env ctx event city code n p)"
  "\<exists>c. details (order_created env ctx event city code n p) = Some c
       \<and> r_orderId c = new_id env \<and> r_orderCode c = code"
  by (simp_all add: order_created_def)

lemma not_success_failure: "\<not> success (failure m)"
  by (simp add: failure_def)

lemma orders_add_available_seats: "orders (add_available_seats n eid d) = orders d"
  by (simp add: add_available_seats_def)

lemma orders_insert_order: "orders (insert_order r d) = orders d @ [r]"
  by (simp add: insert_order_def)

text \<open>The three ways the transaction body returns.\<close>

lemma create_order_tx_cases:
  assumes "create_order_tx env ctx w = (out, w', k)"
  shows "(\<exists>e. out = Inl e)
       \<or> (\<exists>m. out = Inr (failure m) \<and> w' = w)
       \<or> (\<exists>event city code n p.
             out = Inr (order_created env ctx event city code n p)
             \<and> w' = add_available_seats (- n) (Some (c_eventId ctx))
                       (insert_order (new_order env ctx code n p) w))"
  using assms
  by (simp add: create_order_tx_def Let_def split: if_splits list.splits prod.splits) blast+

lemma create_order_tx_success:
  assumes "create_order_tx env ctx w = (Inr r, w', k)" and "success r"
  shows "\<exists>row c. orders w' = orders w @ [row]
           \<and> o_status row = ascii ''pending'' \<and> o_payment_status row = ascii ''pending''
           \<and> details r = Some c \<and> r_orderId c = o_id row \<and> r_orderCode c = o_order_code row"
proof -
  from create_order_tx_cases[OF assms(1)] assms(2) obtain event city code n p where
    r: "r = order_created env ctx event city code n p" and
    w': "w' = add_available_seats (- n) (Some (c_eventId ctx))
                (insert_order (new_order env ctx code n p) w)"
    by (auto simp: not_success_failure)
  from order_created_details(2)[of env ctx event city code n p] obtain c where
    c: "details r = Some c" "r_orderId c = new_id env" "r_orderCode c = code"
    unfolding r by blast
  have "orders w' = orders w @ [new_order env ctx code n p]"
    by (simp add: w' orders_add_available_seats orders_insert_order)
  with c show ?thesis
    using new_order_pending[of env ctx code n p] by metis
qed

lemma withTransaction_Inr:
  assumes "withTransaction fails fn d = (Inr r, d')"
  shows "\<exists>k. fn d = (Inr r, d', k)"
proof -
  obtain out w k where f: "fn d = (out, w, k)"
    by (cases "fn d") auto
  show ?thesis
  proof (cases out)
    case (Inl e)
    with assms f show ?thesis
      by (simp add: withTransaction_def split: if_splits)
  next
    case (Inr r')
    with assms f show ?thesis
      by (simp add: withTransaction_def split: if_splits)
  qed
qed

lemma withTransaction_Inl:
  assumes "withTransaction fails fn d = (Inl e, d')"
  shows "d' = d"
proof -
  obtain out w k where f: "fn d = (out, w, k)"
    by (cases "fn d") auto
  show ?thesis
  proof (cases out)
    case (Inl e')
    with assms f show ?thesis
      by (simp add: withTransaction_def split: if_splits)
  next
    case (Inr r')
    with assms f show ?thesis
      by (simp add: withTransaction_def split: if_splits)
  qed
qed

text \<open>The three ways \<^verbatim>\<open>execute\<close> returns.\<close>

lemma createOrderTool_execute_cases:
  obtains (no_pool) "\<not> dbPool env"
      "createOrderTool_execute env ctx d = (failure DbUnavailableRetry, d)"
  | (thrown) e where "dbPool env"
      "withTransaction (db_fails env) (create_order_tx env ctx) d = (Inl e, d)"
      "createOrderTool_execute env ctx d = (failure CreateOrderFailed, d)"
  | (returned) r d' k where "dbPool env"
      "create_order_tx env ctx d = (Inr r, d', k)"
      "withTransaction (db_fails env) (create_order_tx env ctx) d = (Inr r, d')"
      "createOrderTool_execute env ctx d = (r, d')"
proof (cases "dbPool env")
  case False
  then have "createOrderTool_execute env ctx d = (failure DbUnavailableRetry, d)"
    by (simp add: createOrderTool_execute_def)
  with False show ?thesis by (rule no_pool)
next
  case True
  obtain out d1 where wt: "withTransaction (db_fails env) (create_order_tx env ctx) d = (out, d1)"
    by (cases "withTransaction (db_fails env) (create_order_tx env ctx) d")
  show ?thesis
  proof (cases out)
    case (Inl e)
    from wt Inl have "d1 = d" by (simp add: withTransaction_Inl)
    with wt Inl have a: "withTransaction (db_fails env) (create_order_tx env ctx) d = (Inl e, d)"
      by simp
    have b: "createOrderTool_execute env ctx d = (failure CreateOrderFailed, d)"
      by (simp add: createOrderTool_execute_def True a)
    show ?thesis by (rule thrown[OF True a b])
  next
    case (Inr r)
    with wt have a: "withTransaction (db_fails env) (create_order_tx env ctx) d = (Inr r, d1)"
      by simp
    from withTransaction_Inr[OF a] obtain k where k: "create_order_tx env ctx d = (Inr r, d1, k)" ..
    have b: "createOrderTool_execute env ctx d = (r, d1)"
      by (simp add: createOrderTool_execute_def True a)
    show ?thesis by (rule returned[OF True k a b])
  qed
qed

lemma createOrderTool_success:
  assumes "createOrderTool_execute env ctx d = (res, d')" and "success res"
  shows "\<exists>k. create_order_tx env ctx d = (Inr res, d', k)"
proof (cases env ctx d rule: createOrderTool_execute_cases)
  case no_pool
  with assms(1) have "res = failure DbUnavailableRetry" by simp
  with assms(2) show ?thesis by (simp add: not_success_failure)
next
  case (thrown e)
  with assms(1) have "res = failure CreateOrderFailed" by simp
  with assms(2) show ?thesis by (simp add: not_success_failure)
next
  case (returned r d1 k)
  with assms show ?thesis by simp
qed

text \<open>
  Claim C3. Every order that \<^verbatim>\<open>createOrderTool\<close> creates starts as pending: when the
  tool reports success, the orders table has gained exactly one row, the row has
  \<^verbatim>\<open>status = 'pending'\<close> and \<^verbatim>\<open>payment_status = 'pending'\<close>, and it is the row whose
  identifier and order code the result reports.
\<close>

theorem created_order_is_pending:
  assumes "createOrderTool_execute env ctx d = (res, d')" and "success res"
  shows "\<exists>row c. orders d' = orders d @ [row]
           \<and> o_status row = ascii ''pending'' \<and> o_payment_status row = ascii ''pending''
           \<and> details res = Some c \<and> r_orderId c = o_id row \<and> r_orderCode c = o_order_code row"
proof -
  from createOrderTool_success[OF assms] obtain k
    where "create_order_tx env ctx d = (Inr res, d', k)" ..
  from create_order_tx_success[OF this assms(2)] show ?thesis .
qed

lemma sample_order_code: "generateOrderCode (random sample_env) = ascii ''ORD-SSSSSSSS''"
  by (simp add: sample_env_def generateOrderCode_def chars_def ascii_def charAt_def
        order_code_loop.simps)

lemma sample_select_event:
  "select_event_for_update sample_db 1 = [(sample_event, ascii ''Concerts'', ascii ''Moscow'')]"
  by (simp add: select_event_for_update_def sample_db_def sample_event_def)

lemma sample_env_simps:
  "dbPool sample_env" "db_fails sample_env = (\<lambda>k. False)" "new_id sample_env = 8"
  "now sample_env = 2000" "tg_fails sample_env = (\<lambda>k. False)"
  by (simp_all add: sample_env_def)

lemma sample_create_tx:
  "create_order_tx sample_env sample_context sample_db =
     (Inr (order_created sample_env sample_context sample_event (ascii ''Moscow'')
             (ascii ''ORD-SSSSSSSS'') 3 4500),
      add_available_seats (- 3) (Some 1)
        (insert_order (new_order sample_env sample_context (ascii ''ORD-SSSSSSSS'') 3 4500)
           sample_db),
      5)"
proof -
  have c: "c_eventId sample_context = 1" "c_seatsCount sample_context = 3"
          "c_totalPrice sample_context = None"
    by (simp_all add: sample_context_def)
  have e: "e_available_seats sample_event = 5" "e_price sample_event = 1500"
    by (simp_all add: sample_event_def)
  show ?thesis
    by (simp add: create_order_tx_def sample_env_simps c e sample_select_event
          sample_order_code Let_def)
qed

lemma sample_create:
  "createOrderTool_execute sample_env sample_context sample_db =
     (order_created sample_env sample_context sample_event (ascii ''Moscow'')
        (ascii ''ORD-SSSSSSSS'') 3 4500,
      add_available_seats (- 3) (Some 1)
        (insert_order (new_order sample_env sample_context (ascii ''ORD-SSSSSSSS'') 3 4500)
           sample_db))"
  by (simp add: createOrderTool_execute_def withTransaction_def sample_env_simps sample_create_tx)

theorem created_order_is_pending_witness:
  "success (fst (createOrderTool_execute sample_env sample_context sample_db))
   \<and> (\<exists>row c. orders (snd (createOrderTool_execute sample_env sample_context sample_db))
                  = orders sample_db @ [row]
         \<and> o_status row = ascii ''pending'' \<and> o_payment_status row = ascii ''pending''
         \<and> details (fst (createOrderTool_execute sample_env sample_context sample_db)) = Some c
         \<and> r_orderId c = o_id row \<and> r_orderCode c = o_order_code row)"
proof (rule conjI)
  show s: "success (fst (createOrderTool_execute sample_env sample_context sample_db))"
    by (simp add: sample_create order_created_details)
  show "\<exists>row c. orders (snd (createOrderTool_execute sample_env sample_context sample_db))
                  = orders sample_db @ [row]
         \<and> o_status row = ascii ''pending'' \<and> o_payment_status row = ascii ''pending''
         \<and> details (fst (createOrderTool_execute sample_env sample_context sample_db)) = Some c
         \<and> r_orderId c = o_id row \<and> r_orderCode c = o_order_code row"
    by (rule created_order_is_pending[OF prod.collapse[symmetric] s])
qed

lemma createOrderTool_failure_keeps_db:
  assumes "createOrderTool_execute env ctx d = (res, d')" and "\<not> success res"
  shows "d' = d"
proof (cases env ctx d rule: createOrderTool_execute_cases)
  case no_pool
  with assms(1) show ?thesis by simp
next
  case (thrown e)
  with assms(1) show ?thesis by simp
next
  case (returned r d1 k)
  with assms(1) have r: "r = res" and d1: "d1 = d'" by simp_all
  from create_order_tx_cases[OF returned(2)] show ?thesis
  proof (elim disjE exE conjE)
    fix e assume "Inr r = (Inl e :: exn + create_result)"
    then show ?thesis by simp
  next
    fix m assume "d1 = d"
    with d1 show ?thesis by simp
  next
    fix event city code n p
    assume "Inr r = (Inr (order_created env ctx event city code n p) :: exn + create_result)"
    then have "success r" by (simp add: order_created_details)
    with assms(2) r show ?thesis by simp
  qed
qed




lemma withTransaction_Inr_calls:
  assumes "withTransaction fails fn d = (Inr r, d')"
  shows "\<not> fails 0 \<and> \<not> fails 1 \<and> \<not> fails (snd (snd (fn d)))"
proof -
  obtain out w k where f: "fn d = (out, w, k)"
    by (cases "fn d") auto
  show ?thesis
  proof (cases out)
    case (Inl e)
    with assms f show ?thesis
      by (simp add: withTransaction_def split: if_splits)
  next
    case (Inr r')
    with assms f show ?thesis
      by (simp add: withTransaction_def split: if_splits)
  qed
qed

lemma success_neq_failure:
  assumes "success r"
  shows "failure m \<noteq> r" and "r \<noteq> failure m"
  using assms by (auto simp: failure_def)

lemma create_order_tx_success_calls:
  assumes "create_order_tx env ctx w = (Inr r, w', k)" and "success r"
  shows "\<not> db_fails env 2 \<and> \<not> db_fails env 3 \<and> \<not> db_fails env 4 \<and> k = 5"
  using assms
  by (simp add: create_order_tx_def Let_def success_neq_failure
           split: if_splits list.splits prod.splits)

lemma createOrderTool_success_calls:
  assumes "createOrderTool_execute env ctx d = (res, d')" and "success res" and "k \<le> 5"
  shows "\<not> db_fails env k"
proof (cases env ctx d rule: createOrderTool_execute_cases)
  case no_pool
  with assms(1) have "res = failure DbUnavailableRetry" by simp
  with assms(2) show ?thesis by (simp add: not_success_failure)
next
  case (thrown e)
  with assms(1) have "res = failure CreateOrderFailed" by simp
  with assms(2) show ?thesis by (simp add: not_success_failure)
next
  case (returned r d1 k')
  with assms(1) have r: "r = res" by simp
  from create_order_tx_success_calls[OF returned(2)] assms(2) r
  have tx: "\<not> db_fails env 2" "\<not> db_fails env 3" "\<not> db_fails env 4" "k' = 5"
    by simp_all
  from withTransaction_Inr_calls[OF returned(3)] returned(2) tx(4)
  have wt: "\<not> db_fails env 0" "\<not> db_fails env 1" "\<not> db_fails env 5"
    by simp_all
  from assms(3) have "k = 0 \<or> k = 1 \<or> k = 2 \<or> k = 3 \<or> k = 4 \<or> k = 5"
    by arith
  with tx wt show ?thesis by (elim disjE) simp_all
qed

text \<open>
  Claim C1, for the one operation that runs in a transaction. \<^verbatim>\<open>createOrderTool\<close> issues
  its \<^verbatim>\<open>SELECT ... FOR UPDATE\<close>, its \<^verbatim>\<open>INSERT\<close> and its \<^verbatim>\<open>UPDATE\<close> between
  \<^verbatim>\<open>BEGIN\<close> and \<^verbatim>\<open>COMMIT\<close> of one client: whichever database call throws, and
  whenever the tool reports a failure for any other reason, the tables are exactly what
  they were before the call.
\<close>

theorem createOrderTool_all_or_nothing:
  assumes "createOrderTool_execute env ctx d = (res, d')"
  shows "(\<not> success res \<longrightarrow> d' = d) \<and> ((\<exists>k\<le>5. db_fails env k) \<longrightarrow> \<not> success res)"
proof (intro conjI impI)
  assume "\<not> success res"
  with assms show "d' = d" by (rule createOrderTool_failure_keeps_db)
next
  assume "\<exists>k\<le>5. db_fails env k"
  then obtain k where k: "k \<le> 5" "db_fails env k" by (elim exE conjE)
  show "\<not> success res"
  proof
    assume "success res"
    from createOrderTool_success_calls[OF assms this k(1)] k(2) show False by simp
  qed
qed

theorem createOrderTool_all_or_nothing_witness:
  "createOrderTool_execute (sample_env\<lparr>db_fails := (\<lambda>k. k = 4)\<rparr>) sample_context sample_db
     = (failure CreateOrderFailed, sample_db)"
proof -
  let ?env = "sample_env\<lparr>db_fails := (\<lambda>k. k = 4)\<rparr>"
  have f: "\<exists>k\<le>5. db_fails ?env k"
    by (rule exI[of _ 4]) simp
  have m: "fst (createOrderTool_execute ?env sample_context sample_db) = failure CreateOrderFailed"
    by (simp add: createOrderTool_execute_def withTransaction_def create_order_tx_def rollback_def
          sample_env_def sample_context_def sample_select_event Let_def sample_event_def)
  from createOrderTool_all_or_nothing[OF prod.collapse[symmetric], of ?env sample_context sample_db] f
  have "snd (createOrderTool_execute ?env sample_context sample_db) = sample_db"
    by simp
  with m show ?thesis by (simp add: prod_eq_iff)
qed

section \<open>Rejecting a payment\<close>

lemma manage_try_found:
  assumes "m_action ctx \<noteq> ListPending" and "order_ref_of ctx = Some r"
    and "lookup_order d r = Some row" and "\<not> db_fails env 0" and "\<not> db_fails env 1"
  shows "\<exists>k\<in>{1, 2}. manage_try env ctx d = manage_found env (m_action ctx) row k d"
proof (cases "select_order_with_event d r")
  case Nil
  with assms(3) obtain rest where "select_order_with_template d r = row # rest"
    by (simp add: lookup_order_def split: list.splits)
  with Nil assms show ?thesis
    by (simp add: manage_try_def)
next
  case (Cons row' rest)
  with assms(3) have "row' = row" by (simp add: lookup_order_def)
  with Cons assms show ?thesis
    by (simp add: manage_try_def)
qed

lemma manage_found_reject:
  assumes "\<not> db_fails env k" and "\<not> db_fails env (Suc k)"
  shows "manage_found env RejectPayment row k d =
           (Inr \<lparr>m_success = True,
                 m_order = Some ((order_of_row row)\<lparr>ob_paymentStatus := ascii ''rejected'',
                                                    ob_status := ascii ''rejected''\<rparr>),
                 m_orders = None,
                 m_message = PaymentRejected (ob_orderCode (order_of_row row))\<rparr>,
            add_available_seats (o_seats_count (jr_order row)) (o_event_id (jr_order row))
              (update_orders (ob_id (order_of_row row))
                 (\<lambda>od. od\<lparr>o_payment_status := ascii ''rejected'', o_status := ascii ''rejected'',
                          o_updated_at := now env\<rparr>) d))"
  using assms by (simp add: manage_found_def Let_def)

lemma order_of_row_id: "ob_id (order_of_row row) = o_id (jr_order row)"
  by (simp add: order_of_row_def)

lemma events_update_orders: "events (update_orders i f d) = events d"
  by (simp add: update_orders_def)

lemma orders_update_orders:
  "orders (update_orders i f d) = map (\<lambda>od. if o_id od = i then f od else od) (orders d)"
  by (simp add: update_orders_def)

lemma events_add_available_seats:
  "events (add_available_seats n eid d) =
     map (\<lambda>e. if Some (e_id e) = eid then e\<lparr>e_available_seats := e_available_seats e + n\<rparr> else e)
       (events d)"
  by (simp add: add_available_seats_def)

text \<open>
  Claim C7, for an order that the tool's lookup finds. When the pool is available, no
  database call throws and the order is found, \<^verbatim>\<open>reject_payment\<close> succeeds; the order object it returns has status and payment
  status \<^verbatim>\<open>rejected\<close>; every orders row with the order's identifier has both columns
  set to \<^verbatim>\<open>rejected\<close> and no other orders row changes; and every event the order
  refers to has its \<^verbatim>\<open>available_seats\<close> increased by the order's \<^verbatim>\<open>seats_count\<close>, while
  no other event changes.
\<close>

theorem reject_payment_returns_seats:
  assumes "dbPool env" and "\<forall>k\<le>3. \<not> db_fails env k"
    and "m_action ctx = RejectPayment" and "order_ref_of ctx = Some r"
    and "lookup_order d r = Some row"
    and "manageOrderTool_execute env ctx d = (res, d')"
  shows "m_success res
       \<and> (\<exists>ob. m_order res = Some ob \<and> ob_id ob = o_id (jr_order row)
                \<and> ob_status ob = ascii ''rejected'' \<and> ob_paymentStatus ob = ascii ''rejected'')
       \<and> length (orders d') = length (orders d)
       \<and> (\<forall>i<length (orders d).
             if o_id (orders d ! i) = o_id (jr_order row)
             then o_status (orders d' ! i) = ascii ''rejected''
                  \<and> o_payment_status (orders d' ! i) = ascii ''rejected''
             else orders d' ! i = orders d ! i)
       \<and> length (events d') = length (events d)
       \<and> (\<forall>i<length (events d).
             if Some (e_id (events d ! i)) = o_event_id (jr_order row)
             then e_available_seats (events d' ! i)
                    = e_available_seats (events d ! i) + o_seats_count (jr_order row)
             else events d' ! i = events d ! i)"
proof -
  from assms(2) have nf: "\<not> db_fails env 0" "\<not> db_fails env 1" "\<not> db_fails env 2"
    "\<not> db_fails env 3" by simp_all
  from assms(3) have "m_action ctx \<noteq> ListPending" by simp
  from manage_try_found[OF this assms(4,5) nf(1,2)] assms(3)
  obtain k where k: "k = 1 \<or> k = 2" and
    t: "manage_try env ctx d = manage_found env RejectPayment row k d"
    by auto
  from k nf have "\<not> db_fails env k" "\<not> db_fails env (Suc k)"
    by (auto simp: numeral_2_eq_2 numeral_3_eq_3)
  note f = manage_found_reject[OF this, of row d]
  let ?d' = "add_available_seats (o_seats_count (jr_order row)) (o_event_id (jr_order row))
              (update_orders (ob_id (order_of_row row))
                 (\<lambda>od. od\<lparr>o_payment_status := ascii ''rejected'', o_status := ascii ''rejected'',
                          o_updated_at := now env\<rparr>) d)"
  from assms(1,6) t f have res: "res = \<lparr>m_success = True,
                 m_order = Some ((order_of_row row)\<lparr>ob_paymentStatus := ascii ''rejected'',
                                                    ob_status := ascii ''rejected''\<rparr>),
                 m_orders = None,
                 m_message = PaymentRejected (ob_orderCode (order_of_row row))\<rparr>"
    and d': "d' = ?d'"
    by (simp_all add: manageOrderTool_execute_def)
  have 1: "m_success res" by (simp add: res)
  have 2: "\<exists>ob. m_order res = Some ob \<and> ob_id ob = o_id (jr_order row)
                \<and> ob_status ob = ascii ''rejected'' \<and> ob_paymentStatus ob = ascii ''rejected''"
    by (simp add: res order_of_row_id)
  have o: "orders d' = map (\<lambda>od. if o_id od = o_id (jr_order row)
                                  then od\<lparr>o_payment_status := ascii ''rejected'',
                                         o_status := ascii ''rejected'',
                                         o_updated_at := now env\<rparr>
                                  else od) (orders d)"
    by (simp add: d' orders_add_available_seats orders_update_orders order_of_row_id)
  have e: "events d' = map (\<lambda>e. if Some (e_id e) = o_event_id (jr_order row)
                                 then e\<lparr>e_available_seats :=
                                          e_available_seats e + o_seats_count (jr_order row)\<rparr>
                                 else e) (events d)"
    by (simp add: d' events_add_available_seats events_update_orders)
  have 3: "length (orders d') = length (orders d)" by (simp add: o)
  have 4: "\<forall>i<length (orders d).
             if o_id (orders d ! i) = o_id (jr_order row)
             then o_status (orders d' ! i) = ascii ''rejected''
                  \<and> o_payment_status (orders d' ! i) = ascii ''rejected''
             else orders d' ! i = orders d ! i"
    by (simp add: o)
  have 5: "length (events d') = length (events d)" by (simp add: e)
  have 6: "\<forall>i<length (events d).
             if Some (e_id (events d ! i)) = o_event_id (jr_order row)
             then e_available_seats (events d' ! i)
                    = e_available_seats (events d ! i) + o_seats_count (jr_order row)
             else events d' ! i = events d ! i"
    by (simp add: e)
  from 1 2 3 4 5 6 show ?thesis by (intro conjI)
qed

lemma sample_lookup:
  "lookup_order sample_db (ById 7) =
     Some \<lparr>jr_order = sample_order, jr_event_name = ascii ''Jazz Night'',
           jr_event_date = Some (ascii ''2026-01-15''), jr_event_time = Some (ascii ''19:00:00''),
           jr_category_name = ascii ''Concerts'', jr_city_name = Some (ascii ''Moscow'')\<rparr>"
  by (simp add: lookup_order_def select_order_with_event_def matches_ref_def sample_db_def
        sample_event_def sample_order_def)

lemma sample_order_simps:
  "o_id sample_order = 7" "o_event_id sample_order = Some 1" "o_seats_count sample_order = 2"
  "o_payment_status sample_order = ascii ''pending''"
  by (simp_all add: sample_order_def)

lemma sample_db_simps:
  "events sample_db = [sample_event]" "orders sample_db = [sample_order]"
  by (simp_all add: sample_db_def)

lemma sample_event_simps:
  "e_id sample_event = 1" "e_available_seats sample_event = 5" "e_price sample_event = 1500"
  by (simp_all add: sample_event_def)

theorem reject_payment_returns_seats_witness:
  "m_success (fst (manageOrderTool_execute sample_env
       \<lparr>m_action = RejectPayment, m_orderCode = None, m_orderId = Some 7\<rparr> sample_db))
   \<and> o_status (orders (snd (manageOrderTool_execute sample_env
         \<lparr>m_action = RejectPayment, m_orderCode = None, m_orderId = Some 7\<rparr> sample_db)) ! 0)
       = ascii ''rejected''
   \<and> o_payment_status (orders (snd (manageOrderTool_execute sample_env
         \<lparr>m_action = RejectPayment, m_orderCode = None, m_orderId = Some 7\<rparr> sample_db)) ! 0)
       = ascii ''rejected''
   \<and> e_available_seats (events (snd (manageOrderTool_execute sample_env
         \<lparr>m_action = RejectPayment, m_orderCode = None, m_orderId = Some 7\<rparr> sample_db)) ! 0)
       = 7"
proof -
  let ?ctx = "\<lparr>m_action = RejectPayment, m_orderCode = None, m_orderId = Some 7\<rparr>"
  have a: "dbPool sample_env" by (simp add: sample_env_simps)
  have b: "\<forall>k\<le>3. \<not> db_fails sample_env k" by (simp add: sample_env_simps)
  have c: "m_action ?ctx = RejectPayment" by simp
  have r: "order_ref_of ?ctx = Some (ById 7)" by (simp add: order_ref_of_def)
  from reject_payment_returns_seats[OF a b c r sample_lookup prod.collapse[symmetric]]
  show ?thesis
    by (simp add: sample_db_simps sample_order_simps sample_event_simps)
qed

section \<open>The operations that run outside a transaction\<close>

lemma sample_select_order:
  "select_order_with_event sample_db (ById 7) =
     [\<lparr>jr_order = sample_order, jr_event_name = ascii ''Jazz Night'',
       jr_event_date = Some (ascii ''2026-01-15''), jr_event_time = Some (ascii ''19:00:00''),
       jr_category_name = ascii ''Concerts'', jr_city_name = Some (ascii ''Moscow'')\<rparr>]"
  by (simp add: select_order_with_event_def matches_ref_def sample_db_def
        sample_event_def sample_order_def)

lemma sample_reject_interrupted:
  "manageOrderTool_execute (sample_env\<lparr>db_fails := (\<lambda>k. k = 2)\<rparr>)
       \<lparr>m_action = RejectPayment, m_orderCode = None, m_orderId = Some 7\<rparr> sample_db
     = (manage_failure ManageError,
        update_orders 7 (\<lambda>od. od\<lparr>o_payment_status := ascii ''rejected'',
                                 o_status := ascii ''rejected'', o_updated_at := 2000\<rparr>) sample_db)"
  by (simp add: manageOrderTool_execute_def manage_try_def order_ref_of_def sample_select_order
        manage_found_def order_of_row_id sample_order_simps Let_def sample_env_def)

lemma sample_cancel_interrupted:
  "manageOrderTool_execute (sample_env\<lparr>db_fails := (\<lambda>k. k = 2)\<rparr>)
       \<lparr>m_action = Cancel, m_orderCode = None, m_orderId = Some 7\<rparr> sample_db
     = (manage_failure ManageError,
        update_orders 7 (\<lambda>od. od\<lparr>o_status := ascii ''cancelled'', o_updated_at := 2000\<rparr>) sample_db)"
proof -
  have p: "ascii ''pending'' \<noteq> ascii ''rejected''" by (simp add: ascii_def)
  show ?thesis
    by (simp add: manageOrderTool_execute_def manage_try_def order_ref_of_def sample_select_order
        manage_found_def order_of_row_id sample_order_simps Let_def sample_env_def p)
qed

lemma sample_select_by_slug:
  "select_event_by_slug sample_db (ascii ''jazz-night'') = [(sample_event, Some (ascii ''Moscow''))]"
  by (simp add: select_event_by_slug_def left_join_def sample_db_def sample_event_def)

lemma sample_ticket_interrupted:
  "create_ticket_order_handler (sample_env\<lparr>db_fails := (\<lambda>k. k = 2)\<rparr>) sample_ticket_body
       sample_db io0
     = ((500, ticket_failure TicketOrderError),
        insert_order (ticket_order_row (sample_env\<lparr>db_fails := (\<lambda>k. k = 2)\<rparr>) sample_ticket_body
                        sample_event (ascii ''TK1JK'') 4500) sample_db,
        log_error (TicketOrderHandlerError (DbError 2)) io0)"
proof -
  have b: "tb_eventSlug sample_ticket_body = ascii ''jazz-night''"
          "tb_seatsCount sample_ticket_body = 3"
    by (simp_all add: sample_ticket_body_def)
  have c: "ascii ''TK'' @ map toUpperCase_unit (number_toString 36 2000) = ascii ''TK1JK''"
    by (simp add: number_toString_def digits_of.simps digit_char_def toUpperCase_unit_def
          ascii_def)
  show ?thesis
    by (simp add: create_ticket_order_handler_def ticket_order_try_def b c
          sample_select_by_slug sample_event_simps Let_def sample_env_def)
qed

text \<open>
  Claim C1 fails for the three operations that do not run in a transaction. On the sample
  database, with the database call after the first write throwing:
  \<^item> \<^verbatim>\<open>reject_payment\<close> reports a failure, the order is stored as rejected, and its two
    seats are not returned (five seats left, not seven);
  \<^item> \<^verbatim>\<open>cancel\<close> reports a failure, the order is stored as cancelled, and its seats are
    not returned;
  \<^item> \<^verbatim>\<open>/api/create-ticket-order\<close> answers 500, the order is stored, and its three seats
    are not taken off (five seats left, not two).
\<close>

theorem lifecycle_transaction_counterexample:
  "\<not> m_success (fst (manageOrderTool_execute (sample_env\<lparr>db_fails := (\<lambda>k. k = 2)\<rparr>)
         \<lparr>m_action = RejectPayment, m_orderCode = None, m_orderId = Some 7\<rparr> sample_db))
   \<and> map o_status (orders (snd (manageOrderTool_execute (sample_env\<lparr>db_fails := (\<lambda>k. k = 2)\<rparr>)
         \<lparr>m_action = RejectPayment, m_orderCode = None, m_orderId = Some 7\<rparr> sample_db)))
       = [ascii ''rejected'']
   \<and> map e_available_seats
         (events (snd (manageOrderTool_execute (sample_env\<lparr>db_fails := (\<lambda>k. k = 2)\<rparr>)
         \<lparr>m_action = RejectPayment, m_orderCode = None, m_orderId = Some 7\<rparr> sample_db)))
       = [5]
   \<and> snd (manageOrderTool_execute (sample_env\<lparr>db_fails := (\<lambda>k. k = 2)\<rparr>)
         \<lparr>m_action = RejectPayment, m_orderCode = None, m_orderId = Some 7\<rparr> sample_db)
       \<noteq> sample_db
   \<and> \<not> m_success (fst (manageOrderTool_execute (sample_env\<lparr>db_fails := (\<lambda>k. k = 2)\<rparr>)
         \<lparr>m_action = Cancel, m_orderCode = None, m_orderId = Some 7\<rparr> sample_db))
   \<and> map o_status (orders (snd (manageOrderTool_execute (sample_env\<lparr>db_fails := (\<lambda>k. k = 2)\<rparr>)
         \<lparr>m_action = Cancel, m_orderCode = None, m_orderId = Some 7\<rparr> sample_db)))
       = [ascii ''cancelled'']
   \<and> map e_available_seats
         (events (snd (manageOrderTool_execute (sample_env\<lparr>db_fails := (\<lambda>k. k = 2)\<rparr>)
         \<lparr>m_action = Cancel, m_orderCode = None, m_orderId = Some 7\<rparr> sample_db)))
       = [5]
   \<and> snd (manageOrderTool_execute (sample_env\<lparr>db_fails := (\<lambda>k. k = 2)\<rparr>)
         \<lparr>m_action = Cancel, m_orderCode = None, m_orderId = Some 7\<rparr> sample_db)
       \<noteq> sample_db
   \<and> fst (create_ticket_order_handler (sample_env\<lparr>db_fails := (\<lambda>k. k = 2)\<rparr>)
         sample_ticket_body sample_db io0)
       = (500, ticket_failure TicketOrderError)
   \<and> map o_id (orders (fst (snd (create_ticket_order_handler
         (sample_env\<lparr>db_fails := (\<lambda>k. k = 2)\<rparr>) sample_ticket_body sample_db io0))))
       = [7, 8]
   \<and> map e_available_seats (events (fst (snd (create_ticket_order_handler
         (sample_env\<lparr>db_fails := (\<lambda>k. k = 2)\<rparr>) sample_ticket_body sample_db io0))))
       = [5]
   \<and> fst (snd (create_ticket_order_handler (sample_env\<lparr>db_fails := (\<lambda>k. k = 2)\<rparr>)
         sample_ticket_body sample_db io0))
       \<noteq> sample_db"
proof -
  have neq: "\<And>d. map o_status (orders d) \<noteq> [ascii ''pending''] \<Longrightarrow> d \<noteq> sample_db"
    "\<And>d. map o_id (orders d) \<noteq> [7] \<Longrightarrow> d \<noteq> sample_db"
    by (auto simp: sample_db_def sample_order_def)
  have p: "ascii ''rejected'' \<noteq> ascii ''pending''" "ascii ''cancelled'' \<noteq> ascii ''pending''"
    by (simp_all add: ascii_def)
  have r: "map o_status (orders (update_orders 7 (\<lambda>od. od\<lparr>o_payment_status := ascii ''rejected'',
              o_status := ascii ''rejected'', o_updated_at := 2000\<rparr>) sample_db))
             = [ascii ''rejected'']"
    by (simp add: orders_update_orders sample_db_simps sample_order_simps)
  have c: "map o_status (orders (update_orders 7 (\<lambda>od. od\<lparr>o_status := ascii ''cancelled'',
              o_updated_at := 2000\<rparr>) sample_db))
             = [ascii ''cancelled'']"
    by (simp add: orders_update_orders sample_db_simps sample_order_simps)
  have t: "map o_id (orders (insert_order (ticket_order_row (sample_env\<lparr>db_fails := (\<lambda>k. k = 2)\<rparr>)
              sample_ticket_body sample_event (ascii ''TK1JK'') 4500) sample_db)) = [7, 8]"
    by (simp add: orders_insert_order sample_db_simps sample_order_simps ticket_order_row_def
          sample_env_def)
  show ?thesis
    apply (simp only: sample_reject_interrupted sample_cancel_interrupted
             sample_ticket_interrupted fst_conv snd_conv r c t)
    apply (intro conjI)
    apply (simp_all add: manage_failure_def events_update_orders sample_db_simps
             sample_event_simps insert_order_def)
    apply (rule neq(1), simp add: r p)
    apply (rule neq(1), simp add: c p)
    apply (rule neq(2), simp add: t[unfolded insert_order_def])
    done
qed

lemma sample_select_by_slug_no_city:
  "select_event_by_slug sample_db_no_city (ascii ''jazz-night'')
     = [(sample_event\<lparr>e_city_id := None\<rparr>, None)]"
  by (simp add: select_event_by_slug_def left_join_def sample_db_no_city_def sample_db_def
        sample_event_def)

lemma sample_ticket_no_city:
  "create_ticket_order_handler sample_env sample_ticket_body sample_db_no_city io0
     = ((200, \<lparr>tr_success = True, tr_message = None, tr_orderCode = Some (ascii ''TK1JK'')\<rparr>),
        add_available_seats (- 3) (Some 1)
          (insert_order (ticket_order_row sample_env sample_ticket_body
                           (sample_event\<lparr>e_city_id := None\<rparr>) (ascii ''TK1JK'') 4500)
             sample_db_no_city),
        send_order_notifications sample_env
          (ticket_notification sample_env sample_ticket_body (sample_event\<lparr>e_city_id := None\<rparr>)
             None (ascii ''TK1JK'') 4500) io0)"
proof -
  have b: "tb_eventSlug sample_ticket_body = ascii ''jazz-night''"
          "tb_seatsCount sample_ticket_body = 3"
    by (simp_all add: sample_ticket_body_def)
  have c: "ascii ''TK'' @ map toUpperCase_unit (number_toString 36 2000) = ascii ''TK1JK''"
    by (simp add: number_toString_def digits_of.simps digit_char_def toUpperCase_unit_def
          ascii_def)
  show ?thesis
    by (simp add: create_ticket_order_handler_def ticket_order_try_def b c
          sample_select_by_slug_no_city sample_event_simps Let_def sample_env_simps)
qed

lemma no_city_not_found:
  assumes "dbPool env" and "\<not> db_fails env 0" and "\<not> db_fails env 1"
    and "list_all (\<lambda>e. e_city_id e = None) (events d)" and "event_templates d = []"
  shows "manageOrderTool_execute env
           \<lparr>m_action = RejectPayment, m_orderCode = None, m_orderId = Some 8\<rparr> d
         = (manage_failure (OrderNotFound (ById 8)), d)"
proof -
  have "\<And>es os. list_all (\<lambda>e. e_city_id e = None) es \<Longrightarrow>
          concat (map (\<lambda>od. concat (map (\<lambda>e. concat (map (\<lambda>c. concat (map (\<lambda>ci.
            if o_event_id od = Some (e_id e) \<and> e_category_id e = fst c
               \<and> e_city_id e = Some (fst ci) \<and> matches_ref (ById 8) od
            then [\<lparr>jr_order = od, jr_event_name = e_name e, jr_event_date = Some (e_date e),
                   jr_event_time = e_time e, jr_category_name = snd c,
                   jr_city_name = Some (snd ci)\<rparr>]
            else []) (cities d))) (categories d))) es)) os) = []"
    by (simp add: list_all_iff)
  with assms(4) have e: "select_order_with_event d (ById 8) = []"
    by (simp add: select_order_with_event_def)
  have t: "select_order_with_template d (ById 8) = []"
    by (simp add: select_order_with_template_def assms(5))
  from assms(3) have f: "\<not> db_fails env (Suc 0)" by simp
  show ?thesis
    by (simp add: manageOrderTool_execute_def manage_try_def order_ref_of_def not_found_ref_def
          nonempty_def assms(1,2) f e t)
qed

text \<open>
  Claim C7 as it is worded fails: not every existing order is one that the tool finds,
  and the two writes of \<^verbatim>\<open>reject_payment\<close> are separate statements.
  \<^item> The tool looks an order up through inner joins with the event's category and city.
    \<^verbatim>\<open>/api/create-ticket-order\<close>, which joins the city with a \<^verbatim>\<open>LEFT JOIN\<close>, stores
    order 8 for an event that is in no city; \<^verbatim>\<open>reject_payment\<close> then answers that the
    order is not found, and the tables stay as they are: the order is still pending and
    its three seats are not returned.
  \<^item> When the \<^verbatim>\<open>UPDATE events\<close> throws, order 7 is stored as rejected and its two seats
    are not returned (five seats left, not seven).
\<close>

theorem reject_payment_counterexample:
  "fst (create_ticket_order_handler sample_env sample_ticket_body sample_db_no_city io0)
     = (200, \<lparr>tr_success = True, tr_message = None, tr_orderCode = Some (ascii ''TK1JK'')\<rparr>)
   \<and> map o_id (orders (fst (snd (create_ticket_order_handler sample_env sample_ticket_body
                                  sample_db_no_city io0)))) = [7, 8]
   \<and> manageOrderTool_execute sample_env
         \<lparr>m_action = RejectPayment, m_orderCode = None, m_orderId = Some 8\<rparr>
         (fst (snd (create_ticket_order_handler sample_env sample_ticket_body
                      sample_db_no_city io0)))
       = (manage_failure (OrderNotFound (ById 8)),
          fst (snd (create_ticket_order_handler sample_env sample_ticket_body
                      sample_db_no_city io0)))
   \<and> map o_status (orders (fst (snd (create_ticket_order_handler sample_env sample_ticket_body
                                      sample_db_no_city io0))))
       = [ascii ''pending'', ascii ''pending'']
   \<and> map e_available_seats (events (fst (snd (create_ticket_order_handler sample_env
                                                sample_ticket_body sample_db_no_city io0))))
       = [2]
   \<and> \<not> m_success (fst (manageOrderTool_execute (sample_env\<lparr>db_fails := (\<lambda>k. k = 2)\<rparr>)
         \<lparr>m_action = RejectPayment, m_orderCode = None, m_orderId = Some 7\<rparr> sample_db))
   \<and> map o_status (orders (snd (manageOrderTool_execute (sample_env\<lparr>db_fails := (\<lambda>k. k = 2)\<rparr>)
         \<lparr>m_action = RejectPayment, m_orderCode = None, m_orderId = Some 7\<rparr> sample_db)))
       = [ascii ''rejected'']
   \<and> map e_available_seats
         (events (snd (manageOrderTool_execute (sample_env\<lparr>db_fails := (\<lambda>k. k = 2)\<rparr>)
         \<lparr>m_action = RejectPayment, m_orderCode = None, m_orderId = Some 7\<rparr> sample_db)))
       = [5]"
proof -
  let ?d = "add_available_seats (- 3) (Some 1)
              (insert_order (ticket_order_row sample_env sample_ticket_body
                               (sample_event\<lparr>e_city_id := None\<rparr>) (ascii ''TK1JK'') 4500)
                 sample_db_no_city)"
  have o: "orders ?d = [sample_order, ticket_order_row sample_env sample_ticket_body
                          (sample_event\<lparr>e_city_id := None\<rparr>) (ascii ''TK1JK'') 4500]"
    by (simp add: orders_add_available_seats orders_insert_order sample_db_no_city_def
          sample_db_simps)
  have e: "events ?d = [sample_event\<lparr>e_city_id := None, e_available_seats := 2\<rparr>]"
    by (simp add: add_available_seats_def insert_order_def sample_db_no_city_def
          sample_event_simps)
  have t: "event_templates ?d = []"
    by (simp add: add_available_seats_def insert_order_def sample_db_no_city_def sample_db_def)
  have c: "list_all (\<lambda>e. e_city_id e = None) (events ?d)"
    by (simp add: e)
  have f: "\<not> db_fails sample_env 0" "\<not> db_fails sample_env 1"
    by (simp_all add: sample_env_simps)
  note n = no_city_not_found[OF sample_env_simps(1) f c t]
  have s: "map o_status (orders ?d) = [ascii ''pending'', ascii ''pending'']"
    "map o_id (orders ?d) = [7, 8]"
    by (simp_all only: o) (simp_all add: sample_order_def ticket_order_row_def sample_env_def)
  have r: "map o_status (orders (update_orders 7 (\<lambda>od. od\<lparr>o_payment_status := ascii ''rejected'',
              o_status := ascii ''rejected'', o_updated_at := 2000\<rparr>) sample_db))
             = [ascii ''rejected'']"
    by (simp add: orders_update_orders sample_db_simps sample_order_simps)
  show ?thesis
    by (simp only: sample_ticket_no_city sample_reject_interrupted fst_conv snd_conv n s r)
       (simp add: e manage_failure_def events_update_orders sample_db_simps sample_event_simps)
qed

section \<open>The handler of POST /api/create-order\<close>

text \<open>The handler's result, branch by branch, for a body that is not \<^verbatim>\<open>null\<close>.\<close>

lemma handler_no_event:
  assumes "body \<noteq> JNull"
    and "\<not> truthy (get_field body (ascii ''eventId''))
         \<or> \<not> is_number (get_field body (ascii ''eventId''))"
  shows "create_order_handler env (Some body) d w = ((400, failure EventNotSpecified), d, w)"
  using assms by (simp add: create_order_handler_def)

lemma handler_no_name:
  assumes "body \<noteq> JNull"
    and "truthy (get_field body (ascii ''eventId''))"
    and "is_number (get_field body (ascii ''eventId''))"
    and "invalid_text (get_field body (ascii ''customerName'')) 2"
  shows "create_order_handler env (Some body) d w = ((400, failure NameRequired), d, w)"
  using assms by (simp add: create_order_handler_def)

lemma handler_no_phone:
  assumes "body \<noteq> JNull"
    and "truthy (get_field body (ascii ''eventId''))"
    and "is_number (get_field body (ascii ''eventId''))"
    and "\<not> invalid_text (get_field body (ascii ''customerName'')) 2"
    and "invalid_text (get_field body (ascii ''customerPhone'')) 5"
  shows "create_order_handler env (Some body) d w = ((400, failure PhoneRequired), d, w)"
  using assms by (simp add: create_order_handler_def)

lemma handler_bad_seats:
  assumes "body \<noteq> JNull"
    and "truthy (get_field body (ascii ''eventId''))"
    and "is_number (get_field body (ascii ''eventId''))"
    and "\<not> invalid_text (get_field body (ascii ''customerName'')) 2"
    and "\<not> invalid_text (get_field body (ascii ''customerPhone'')) 5"
    and "parseInt (get_field body (ascii ''seatsCount'')) = Inr None
         \<or> (\<exists>n. parseInt (get_field body (ascii ''seatsCount'')) = Inr (Some n)
                 \<and> (n < 1 \<or> n > 10))"
  shows "create_order_handler env (Some body) d w = ((400, failure SeatsOutOfRange), d, w)"
proof -
  from assms(6) consider
      (nan) "parseInt (get_field body (ascii ''seatsCount'')) = Inr None"
    | (range) n where "parseInt (get_field body (ascii ''seatsCount'')) = Inr (Some n)"
        "n < 1 \<or> n > 10"
    by auto
  then show ?thesis
  proof cases
    case nan
    with assms(1-5) show ?thesis by (simp add: create_order_handler_def)
  next
    case (range n)
    with assms(1-5) show ?thesis by (simp add: create_order_handler_def)
  qed
qed

lemma handler_seats_throw:
  assumes "body \<noteq> JNull"
    and "truthy (get_field body (ascii ''eventId''))"
    and "is_number (get_field body (ascii ''eventId''))"
    and "\<not> invalid_text (get_field body (ascii ''customerName'')) 2"
    and "\<not> invalid_text (get_field body (ascii ''customerPhone'')) 5"
    and "parseInt (get_field body (ascii ''seatsCount'')) = Inl e"
  shows "create_order_handler env (Some body) d w =
           ((500, failure CreateOrderError), d, log_error (CreateOrderHandlerError e) w)"
  using assms by (simp add: create_order_handler_def)

lemma handler_valid:
  assumes "body \<noteq> JNull"
    and "truthy (get_field body (ascii ''eventId''))"
    and "is_number (get_field body (ascii ''eventId''))"
    and "\<not> invalid_text (get_field body (ascii ''customerName'')) 2"
    and "\<not> invalid_text (get_field body (ascii ''customerPhone'')) 5"
    and "parseInt (get_field body (ascii ''seatsCount'')) = Inr (Some n)"
    and "\<not> (n < 1 \<or> n > 10)"
  shows "create_order_handler env (Some body) d w =
           (case optional_trim (get_field body (ascii ''customerEmail'')) of
              Inl error \<Rightarrow>
                ((500, failure CreateOrderError), d, log_error (CreateOrderHandlerError error) w)
            | Inr customerEmail \<Rightarrow>
                (case total_price_arg (get_field body (ascii ''totalPrice'')) of
                   Inl error \<Rightarrow>
                     ((500, failure CreateOrderError), d,
                      log_error (CreateOrderHandlerError error) w)
                 | Inr totalPrice \<Rightarrow>
                     ((200, fst (execute_for_request env body n customerEmail totalPrice d)),
                      snd (execute_for_request env body n customerEmail totalPrice d),
                      notify_created env body
                        (fst (execute_for_request env body n customerEmail totalPrice d)) w)))"
proof (cases "optional_trim (get_field body (ascii ''customerEmail''))")
  case (Inl e)
  with assms show ?thesis by (simp add: create_order_handler_def)
next
  case (Inr email)
  show ?thesis
  proof (cases "total_price_arg (get_field body (ascii ''totalPrice''))")
    case (Inl e)
    with Inr assms show ?thesis by (simp add: create_order_handler_def)
  next
    case p: (Inr price)
    obtain result d1 where t: "execute_for_request env body n email price d = (result, d1)"
      by (cases "execute_for_request env body n email price d")
    with Inr p assms show ?thesis by (simp add: create_order_handler_def)
  qed
qed

lemma handler_status:
  obtains (rejected) m where "create_order_handler env request d w = ((400, failure m), d, w)"
  | (crashed) e where
      "create_order_handler env request d w
         = ((500, failure CreateOrderError), d, log_error (CreateOrderHandlerError e) w)"
  | (called) body n email price where "request = Some body"
      "create_order_handler env request d w
         = ((200, fst (execute_for_request env body n email price d)),
            snd (execute_for_request env body n email price d),
            notify_created env body (fst (execute_for_request env body n email price d)) w)"
proof (cases request)
  case None
  then show ?thesis by (intro crashed[of SyntaxError]) (simp add: create_order_handler_def)
next
  case (Some body)
  show ?thesis
  proof (cases "body = JNull")
    case True
    with Some show ?thesis by (intro crashed[of TypeError]) (simp add: create_order_handler_def)
  next
    case nn: False
    show ?thesis
    proof (cases "\<not> truthy (get_field body (ascii ''eventId''))
                  \<or> \<not> is_number (get_field body (ascii ''eventId''))")
      case True
      from handler_no_event[OF nn True, of env d w] Some show ?thesis
        by (intro rejected[of EventNotSpecified]) simp
    next
      case False
      then have ev: "truthy (get_field body (ascii ''eventId''))"
        "is_number (get_field body (ascii ''eventId''))" by simp_all
      show ?thesis
      proof (cases "invalid_text (get_field body (ascii ''customerName'')) 2")
        case True
        from handler_no_name[OF nn ev True, of env d w] Some show ?thesis
          by (intro rejected[of NameRequired]) simp
      next
        case nm: False
        show ?thesis
        proof (cases "invalid_text (get_field body (ascii ''customerPhone'')) 5")
          case True
          from handler_no_phone[OF nn ev nm True, of env d w] Some show ?thesis
            by (intro rejected[of PhoneRequired]) simp
        next
          case ph: False
          show ?thesis
          proof (cases "parseInt (get_field body (ascii ''seatsCount''))")
            case (Inl e)
            from handler_seats_throw[OF nn ev nm ph Inl, of env d w] Some show ?thesis
              by (intro crashed[of e]) simp
          next
            case (Inr seats)
            show ?thesis
            proof (cases "seats = None \<or> (\<exists>n. seats = Some n \<and> (n < 1 \<or> n > 10))")
              case True
              with Inr have "parseInt (get_field body (ascii ''seatsCount'')) = Inr None
                \<or> (\<exists>n. parseInt (get_field body (ascii ''seatsCount'')) = Inr (Some n)
                        \<and> (n < 1 \<or> n > 10))"
                by simp
              from handler_bad_seats[OF nn ev nm ph this, of env d w] Some show ?thesis
                by (intro rejected[of SeatsOutOfRange]) simp
            next
              case False
              then obtain n where "seats = Some n" and r: "\<not> (n < 1 \<or> n > 10)"
                by (cases seats) simp_all
              with Inr have n: "parseInt (get_field body (ascii ''seatsCount'')) = Inr (Some n)"
                by simp
              note v = handler_valid[OF nn ev nm ph n r, of env d w]
              show ?thesis
              proof (cases "optional_trim (get_field body (ascii ''customerEmail''))")
                case (Inl e)
                with v Some show ?thesis by (intro crashed[of e]) simp
              next
                case email: (Inr email)
                show ?thesis
                proof (cases "total_price_arg (get_field body (ascii ''totalPrice''))")
                  case (Inl e)
                  with v email Some show ?thesis by (intro crashed[of e]) simp
                next
                  case (Inr price)
                  with v email Some show ?thesis
                    by (intro called[of body n email price]) simp_all
                qed
              qed
            qed
          qed
        qed
      qed
    qed
  qed
qed

text \<open>A call that the database rejects creates nothing.\<close>

lemma rejecting_not_success:
  assumes "k \<le> 5"
  shows "\<not> success (fst (createOrderTool_execute (rejecting k env) ctx d))"
proof
  assume s: "success (fst (createOrderTool_execute (rejecting k env) ctx d))"
  have "\<not> db_fails (rejecting k env) k"
    by (rule createOrderTool_success_calls[OF prod.collapse[symmetric] s assms])
  then show False by (simp add: rejecting_def)
qed

lemma execute_for_request_success:
  assumes "execute_for_request env body n email price d = (res, d')" and "success res"
  shows "\<exists>ctx. createOrderTool_execute env ctx d = (res, d')"
proof (cases "case get_field body (ascii ''eventId'') of
                Some (JNum s) \<Rightarrow> integer_param s | _ \<Rightarrow> None")
  case None
  with assms(1) have "createOrderTool_execute (rejecting 2 env)
                        (order_context body 0 n email None) d = (res, d')"
    by (simp add: execute_for_request_def)
  with rejecting_not_success[of 2 env "order_context body 0 n email None" d] assms(2)
  show ?thesis by simp
next
  case (Some eventId)
  show ?thesis
  proof (cases price)
    case Unset
    with Some assms(1) show ?thesis
      by (intro exI[of _ "order_context body eventId n email None"])
         (simp add: execute_for_request_def)
  next
    case (Finite p)
    with Some assms(1) show ?thesis
      by (intro exI[of _ "order_context body eventId n email (Some p)"])
         (simp add: execute_for_request_def)
  next
    case Infinite
    with Some assms(1) have "createOrderTool_execute (rejecting 3 env)
                               (order_context body eventId n email None) d = (res, d')"
      by (simp add: execute_for_request_def)
    with rejecting_not_success[of 3 env "order_context body eventId n email None" d] assms(2)
    show ?thesis by simp
  qed
qed


lemma sample_body_fields:
  "sample_body s t \<noteq> JNull"
  "get_field (sample_body s t) (ascii ''eventId'') = Some (JNum (ascii ''1''))"
  "get_field (sample_body s t) (ascii ''customerName'') = Some (JStr (ascii ''Ivan Ivanov''))"
  "get_field (sample_body s t) (ascii ''customerPhone'') = Some (JStr (ascii ''12345''))"
  "get_field (sample_body s t) (ascii ''seatsCount'') = Some s"
  "get_field (sample_body s t) (ascii ''customerEmail'') = None"
  "get_field (sample_body s t) (ascii ''totalPrice'') = None"
  "get_field (sample_body s t) (ascii ''tickets'') = t"
  by (cases t; simp add: sample_body_def get_field_def ascii_def)+

lemma sample_body_valid:
  "truthy (get_field (sample_body s t) (ascii ''eventId''))"
  "is_number (get_field (sample_body s t) (ascii ''eventId''))"
  "\<not> invalid_text (get_field (sample_body s t) (ascii ''customerName'')) 2"
  "\<not> invalid_text (get_field (sample_body s t) (ascii ''customerPhone'')) 5"
  by (simp_all only: sample_body_fields)
     (simp_all add: truthy_def is_number_def invalid_text_def trim_def is_js_space_def ascii_def)

lemma sample_parseInt:
  "parseInt (Some (JNum (ascii ''11''))) = Inr (Some 11)"
  "parseInt (Some (JNum (ascii ''2''))) = Inr (Some 2)"
  "parseInt (Some (JNum (ascii ''3''))) = Inr (Some 3)"
  "parseInt (Some (JNum (ascii ''3.5''))) = Inr (Some 3)"
  "parseInt (Some (JNum (ascii ''1e+21''))) = Inr (Some 1)"
  by (simp_all add: parseInt_def ToString_opt_def parseInt_string_def trimStart_def
        ascii_def is_js_space_def startsWith_def is_radix_digit_def digit_value_def
        digits_value_def)


text \<open>The tool on the sample tables, for a request of \<open>n\<close> seats out of the five.\<close>

lemma sample_create_seats:
  assumes "dbPool env" and "db_fails env = (\<lambda>k. False)" and "1 \<le> n" and "n \<le> 5"
  shows "createOrderTool_execute env (sample_context\<lparr>c_seatsCount := n\<rparr>) sample_db =
     (order_created env (sample_context\<lparr>c_seatsCount := n\<rparr>) sample_event (ascii ''Moscow'')
        (generateOrderCode (random env)) n (1500 * n),
      add_available_seats (- n) (Some 1)
        (insert_order (new_order env (sample_context\<lparr>c_seatsCount := n\<rparr>)
                         (generateOrderCode (random env)) n (1500 * n)) sample_db))"
proof -
  have c: "c_eventId (sample_context\<lparr>c_seatsCount := n\<rparr>) = 1"
          "c_totalPrice (sample_context\<lparr>c_seatsCount := n\<rparr>) = None"
    by (simp_all add: sample_context_def)
  have e: "e_available_seats sample_event = 5" "e_price sample_event = 1500"
    by (simp_all add: sample_event_def)
  from assms(3,4) have n: "n \<noteq> 0" "\<not> 5 < n" by simp_all
  have "create_order_tx env (sample_context\<lparr>c_seatsCount := n\<rparr>) sample_db =
     (Inr (order_created env (sample_context\<lparr>c_seatsCount := n\<rparr>) sample_event (ascii ''Moscow'')
        (generateOrderCode (random env)) n (1500 * n)),
      add_available_seats (- n) (Some 1)
        (insert_order (new_order env (sample_context\<lparr>c_seatsCount := n\<rparr>)
                         (generateOrderCode (random env)) n (1500 * n)) sample_db), 5)"
    by (simp add: create_order_tx_def assms(1,2) c e n sample_select_event Let_def)
  then show ?thesis
    by (simp add: createOrderTool_execute_def withTransaction_def assms(1,2))
qed

lemma sample_execute_for_request:
  "execute_for_request env (sample_body s t) n None Unset d
     = createOrderTool_execute env (sample_context\<lparr>c_seatsCount := n\<rparr>) d"
proof -
  have t: "trim (ascii ''Ivan Ivanov'') = ascii ''Ivan Ivanov''" "trim (ascii ''12345'') = ascii ''12345''"
    by (simp_all add: trim_def ascii_def is_js_space_def)
  have i: "integer_param (ascii ''1'') = Some 1"
    by (simp add: integer_param_def ascii_def is_radix_digit_def digit_value_def digits_value_def)
  have c: "order_context (sample_body s t) 1 n None None = sample_context\<lparr>c_seatsCount := n\<rparr>"
    by (simp only: order_context_def sample_body_fields) (simp add: t sample_context_def)
  show ?thesis
    by (simp only: execute_for_request_def sample_body_fields) (simp add: i c)
qed

lemma sample_handler_seats:
  assumes "dbPool env" and "db_fails env = (\<lambda>k. False)"
    and "parseInt (Some s) = Inr (Some n)" and "1 \<le> n" and "n \<le> 5"
  shows "create_order_handler env (Some (sample_body s t)) sample_db w =
     ((200, order_created env (sample_context\<lparr>c_seatsCount := n\<rparr>) sample_event (ascii ''Moscow'')
              (generateOrderCode (random env)) n (1500 * n)),
      add_available_seats (- n) (Some 1)
        (insert_order (new_order env (sample_context\<lparr>c_seatsCount := n\<rparr>)
                         (generateOrderCode (random env)) n (1500 * n)) sample_db),
      notify_created env (sample_body s t)
        (order_created env (sample_context\<lparr>c_seatsCount := n\<rparr>) sample_event (ascii ''Moscow'')
           (generateOrderCode (random env)) n (1500 * n)) w)"
proof -
  have n: "parseInt (get_field (sample_body s t) (ascii ''seatsCount'')) = Inr (Some n)"
    by (simp only: sample_body_fields(5) assms(3))
  from assms(4,5) have r: "\<not> (n < 1 \<or> n > 10)" by simp
  have e: "optional_trim (get_field (sample_body s t) (ascii ''customerEmail'')) = Inr None"
    by (simp add: sample_body_fields(6) optional_trim_def)
  have p: "total_price_arg (get_field (sample_body s t) (ascii ''totalPrice'')) = Inr Unset"
    by (simp add: sample_body_fields(7) total_price_arg_def truthy_def)
  note v = handler_valid[OF sample_body_fields(1) sample_body_valid n r, of env sample_db w]
  show ?thesis
    by (simp add: v e p sample_execute_for_request sample_create_seats[OF assms(1,2,4,5)])
qed


section \<open>Notifications\<close>

lemma create_order_tx_ignores_telegram:
  "create_order_tx (env\<lparr>BOT_TOKEN := t, bot_ctor_ok := c, ADMIN_CHAT_ID := a, GROUP_ID := g,
                         tg_fails := f\<rparr>) ctx d
     = create_order_tx env ctx d"
proof -
  let ?env = "env\<lparr>BOT_TOKEN := t, bot_ctor_ok := c, ADMIN_CHAT_ID := a, GROUP_ID := g,
                   tg_fails := f\<rparr>"
  have n: "\<And>code n p. new_order ?env ctx code n p = new_order env ctx code n p"
    by (simp add: new_order_def)
  have o: "\<And>ev city code n p. order_created ?env ctx ev city code n p
                                   = order_created env ctx ev city code n p"
    by (simp add: order_created_def)
  have e: "db_fails ?env = db_fails env" "random ?env = random env"
    by simp_all
  show ?thesis
    unfolding create_order_tx_def n o e ..
qed

lemma createOrderTool_ignores_telegram:
  "createOrderTool_execute (env\<lparr>BOT_TOKEN := t, bot_ctor_ok := c, ADMIN_CHAT_ID := a,
                                 GROUP_ID := g, tg_fails := f\<rparr>) ctx d
     = createOrderTool_execute env ctx d"
proof -
  have "create_order_tx (env\<lparr>BOT_TOKEN := t, bot_ctor_ok := c, ADMIN_CHAT_ID := a,
                              GROUP_ID := g, tg_fails := f\<rparr>) ctx
          = create_order_tx env ctx"
    by (rule ext) (rule create_order_tx_ignores_telegram)
  then show ?thesis
    by (simp add: createOrderTool_execute_def)
qed

lemma execute_for_request_ignores_telegram:
  "execute_for_request (env\<lparr>BOT_TOKEN := t, bot_ctor_ok := c, ADMIN_CHAT_ID := a,
                             GROUP_ID := g, tg_fails := f\<rparr>) body n email price d
     = execute_for_request env body n email price d"
proof -
  have r: "\<And>k. rejecting k (env\<lparr>BOT_TOKEN := t, bot_ctor_ok := c, ADMIN_CHAT_ID := a,
                                  GROUP_ID := g, tg_fails := f\<rparr>)
                 = (rejecting k env)\<lparr>BOT_TOKEN := t, bot_ctor_ok := c, ADMIN_CHAT_ID := a,
                                      GROUP_ID := g, tg_fails := f\<rparr>"
    by (simp add: rejecting_def)
  show ?thesis
    unfolding execute_for_request_def r createOrderTool_ignores_telegram ..
qed

lemma handler_response_depends_on_tool:
  assumes "\<And>body n email price.
             execute_for_request env1 body n email price d
               = execute_for_request env2 body n email price d"
  shows "fst (create_order_handler env1 request d w) = fst (create_order_handler env2 request d w)
       \<and> fst (snd (create_order_handler env1 request d w))
           = fst (snd (create_order_handler env2 request d w))"
  by (simp add: create_order_handler_def assms split: option.splits sum.splits prod.splits)

text \<open>The ways in which the two notification functions return.\<close>

lemma tg_api_cases:
  obtains (ok) "\<not> tg_fails env (length (sent w))"
      "tg_api env c w = (Inr (), w\<lparr>sent := sent w @ [c]\<rparr>)"
  | (thrown) "tg_fails env (length (sent w))"
      "tg_api env c w = (Inl (TelegramError (length (sent w))), w\<lparr>sent := sent w @ [c]\<rparr>)"
  by (cases "tg_fails env (length (sent w))") (simp_all add: tg_api_def)

lemma sendChannelNotification_cases:
  obtains (no_bot) "\<not> getBot env"
      "sendChannelNotification env n w
         = (Inr False, log_error BotNotInitializedForChannel (getBot_logged env w))"
  | (no_target) "getBot env"
      "sendChannelNotification env n w = (Inr False, log_error NoChannelTargetConfigured w)"
  | (rejected) e where "getBot env" "formatTicketBreakdown (n_tickets n) = Inl e"
      "sendChannelNotification env n w = (Inl e, w)"
  | (delivered) target where "getBot env" "\<not> tg_fails env (length (sent w))"
      "sendChannelNotification env n w
         = (Inr True, w\<lparr>sent := sent w @ [SendMessage target (ChannelOrderText n)]\<rparr>)"
  | (send_failed) target where "getBot env" "tg_fails env (length (sent w))"
      "sendChannelNotification env n w
         = (Inr False,
            log_error (ChannelSendFailed (TelegramError (length (sent w))))
              (w\<lparr>sent := sent w @ [SendMessage target (ChannelOrderText n)]\<rparr>))"
proof (cases "getBot env")
  case False
  then show ?thesis by (intro no_bot) (simp_all add: sendChannelNotification_def)
next
  case True
  show ?thesis
  proof (cases "case nonempty (GROUP_ID env) of Some g \<Rightarrow> Some g
                | None \<Rightarrow> nonempty (ADMIN_CHAT_ID env)")
    case None
    with True show ?thesis by (intro no_target) (simp_all add: sendChannelNotification_def)
  next
    case (Some target)
    show ?thesis
    proof (cases "formatTicketBreakdown (n_tickets n)")
      case (Inl e)
      with True Some show ?thesis
        by (intro rejected[of e]) (simp_all add: sendChannelNotification_def)
    next
      case (Inr u)
      show ?thesis
      proof (cases env "SendMessage target (ChannelOrderText n)" w rule: tg_api_cases)
        case ok
        with True Some Inr show ?thesis
          by (intro delivered[of target]) (simp_all add: sendChannelNotification_def)
      next
        case thrown
        with True Some Inr show ?thesis
          by (intro send_failed[of target]) (simp_all add: sendChannelNotification_def)
      qed
    qed
  qed
qed

lemma sendOrderNotificationToAdmin_cases:
  obtains (no_bot) "\<not> getBot env"
      "sendOrderNotificationToAdmin env n w
         = (Inr False, log_error BotNotInitialized (getBot_logged env w))"
  | (no_target) "getBot env"
      "sendOrderNotificationToAdmin env n w = (Inr False, log_error AdminChatNotConfigured w)"
  | (delivered) admin where "getBot env" "\<not> tg_fails env (length (sent w))"
      "sendOrderNotificationToAdmin env n w
         = (Inr True, w\<lparr>sent := sent w @ [SendMessage admin (AdminOrderText n)]\<rparr>)"
  | (send_failed) admin where "getBot env" "tg_fails env (length (sent w))"
      "sendOrderNotificationToAdmin env n w
         = (Inr False,
            log_error (AdminSendFailed (TelegramError (length (sent w))))
              (w\<lparr>sent := sent w @ [SendMessage admin (AdminOrderText n)]\<rparr>))"
proof (cases "getBot env")
  case False
  then show ?thesis by (intro no_bot) (simp_all add: sendOrderNotificationToAdmin_def)
next
  case True
  show ?thesis
  proof (cases "nonempty (ADMIN_CHAT_ID env)")
    case None
    with True show ?thesis by (intro no_target) (simp_all add: sendOrderNotificationToAdmin_def)
  next
    case (Some admin)
    show ?thesis
    proof (cases env "SendMessage admin (AdminOrderText n)" w rule: tg_api_cases)
      case ok
      with True Some show ?thesis
        by (intro delivered[of admin]) (simp_all add: sendOrderNotificationToAdmin_def)
    next
      case thrown
      with True Some show ?thesis
        by (intro send_failed[of admin]) (simp_all add: sendOrderNotificationToAdmin_def)
    qed
  qed
qed

lemma log_error_simps:
  "sent (log_error l w) = sent w"
  "logged (log_error l w) = add_mset l (logged w)"
  "sent (getBot_logged env w) = sent w"
  by (simp_all add: log_error_def getBot_logged_def split: option.splits)

lemma sendChannelNotification_no_bot:
  assumes "\<not> getBot env"
  shows "fst (sendChannelNotification env n w) = Inr False"
    and "BotNotInitializedForChannel \<in># logged (snd (sendChannelNotification env n w))"
  using assms by (simp_all add: sendChannelNotification_def log_error_simps)

lemma sendOrderNotificationToAdmin_no_bot:
  assumes "\<not> getBot env"
  shows "fst (sendOrderNotificationToAdmin env n w) = Inr False"
    and "BotNotInitialized \<in># logged (snd (sendOrderNotificationToAdmin env n w))"
  using assms by (simp_all add: sendOrderNotificationToAdmin_def log_error_simps)

lemma sendChannelNotification_send_fails:
  assumes "sent (snd (sendChannelNotification env n w)) \<noteq> sent w"
    and "tg_fails env (length (sent w))"
  shows "fst (sendChannelNotification env n w) = Inr False
       \<and> ChannelSendFailed (TelegramError (length (sent w)))
           \<in># logged (snd (sendChannelNotification env n w))"
proof (cases rule: sendChannelNotification_cases[where env = env and n = n and w = w])
  case no_bot
  with assms(1) show ?thesis by (simp add: log_error_simps)
next
  case no_target
  with assms(1) show ?thesis by (simp add: log_error_simps)
next
  case (rejected e)
  with assms(1) show ?thesis by simp
next
  case (delivered target)
  with assms(2) show ?thesis by simp
next
  case (send_failed target)
  then show ?thesis by (simp add: log_error_simps)
qed

lemma sendOrderNotificationToAdmin_send_fails:
  assumes "sent (snd (sendOrderNotificationToAdmin env n w)) \<noteq> sent w"
    and "tg_fails env (length (sent w))"
  shows "fst (sendOrderNotificationToAdmin env n w) = Inr False
       \<and> AdminSendFailed (TelegramError (length (sent w)))
           \<in># logged (snd (sendOrderNotificationToAdmin env n w))"
proof (cases rule: sendOrderNotificationToAdmin_cases[where env = env and n = n and w = w])
  case no_bot
  with assms(1) show ?thesis by (simp add: log_error_simps)
next
  case no_target
  with assms(1) show ?thesis by (simp add: log_error_simps)
next
  case (delivered admin)
  with assms(2) show ?thesis by simp
next
  case (send_failed admin)
  then show ?thesis by (simp add: log_error_simps)
qed

lemma sendOrderNotificationToAdmin_resolves:
  "\<exists>b. fst (sendOrderNotificationToAdmin env n w) = Inr b"
  by (cases rule: sendOrderNotificationToAdmin_cases[where env = env and n = n and w = w]) auto

text \<open>
  A rejection of \<^verbatim>\<open>sendChannelNotification\<close> is caught by the handler and logged; the
  entries that the two functions have written stay in the log.
\<close>

lemma send_order_notifications_rejected:
  assumes "fst (sendChannelNotification env n w) = Inl e"
  shows "NotificationsFailed e \<in># logged (send_order_notifications env n w)"
proof -
  obtain w1 where c: "sendChannelNotification env n w = (Inl e, w1)"
    using assms by (cases "sendChannelNotification env n w") simp
  obtain r2 w2 where a: "sendOrderNotificationToAdmin env n w1 = (r2, w2)"
    by (cases "sendOrderNotificationToAdmin env n w1")
  show ?thesis
    by (simp add: send_order_notifications_def c a log_error_simps)
qed

lemma handler_success:
  assumes "create_order_handler env request d w = ((status, res), d', w')" and "success res"
  shows "status = 200 \<and> (\<exists>ctx. createOrderTool_execute env ctx d = (res, d'))
       \<and> (\<exists>body r. request = Some body \<and> details res = Some r
             \<and> w' = (if r_orderId r \<noteq> 0 \<and> r_orderCode r \<noteq> []
                     then send_order_notifications env
                            (order_notification r (get_field body (ascii ''tickets''))) w
                     else w))"
proof (cases env request d w rule: handler_status)
  case (rejected m)
  with assms(1) have "res = failure m" by simp
  with assms(2) show ?thesis by (simp add: not_success_failure)
next
  case (crashed e)
  with assms(1) have "res = failure CreateOrderError" by simp
  with assms(2) show ?thesis by (simp add: not_success_failure)
next
  case (called body k email price)
  with assms(1) have st: "status = 200"
    and ex: "execute_for_request env body k email price d = (res, d')"
    and w': "w' = notify_created env body res w"
    by (simp_all add: prod_eq_iff)
  from execute_for_request_success[OF ex assms(2)] obtain ctx
    where t: "createOrderTool_execute env ctx d = (res, d')" ..
  from createOrderTool_success[OF t assms(2)] obtain j
    where "create_order_tx env ctx d = (Inr res, d', j)" ..
  from create_order_tx_success[OF this assms(2)] obtain r where r: "details res = Some r"
    by (elim exE conjE)
  from w' r assms(2)
  have "w' = (if r_orderId r \<noteq> 0 \<and> r_orderCode r \<noteq> []
              then send_order_notifications env
                     (order_notification r (get_field body (ascii ''tickets''))) w
              else w)"
    by (simp add: notify_created_def)
  with called(1) r have "\<exists>body r. request = Some body \<and> details res = Some r
             \<and> w' = (if r_orderId r \<noteq> 0 \<and> r_orderCode r \<noteq> []
                     then send_order_notifications env
                            (order_notification r (get_field body (ascii ''tickets''))) w
                     else w)"
    by (intro exI[of _ body] exI[of _ r]) simp
  with st t show ?thesis by (intro conjI exI[of _ ctx])
qed

text \<open>
  Claim C5. When \<^verbatim>\<open>/api/create-order\<close> has created the order, the response is status
  200 with the tool's successful result, and neither the response nor the tables depend
  on the Telegram configuration or on which Telegram call throws; all that the
  notifications leave behind is what \<open>send_order_notifications\<close> has sent and logged.
  A failure there is logged and goes no further: \<^verbatim>\<open>sendOrderNotificationToAdmin\<close>
  never rejects, and when \<^verbatim>\<open>sendChannelNotification\<close> rejects, the handler has logged
  the exception. The two functions return \<^verbatim>\<open>false\<close>, with a log entry, when the bot is
  not configured and when their call of \<^verbatim>\<open>sendMessage\<close> throws.
\<close>

theorem notification_failure_swallowed:
  assumes "create_order_handler env request d w = ((status, res), d', w')" and "success res"
  shows "status = 200
       \<and> (\<exists>ctx. createOrderTool_execute env ctx d = (res, d'))
       \<and> fst (create_order_handler
                (env\<lparr>BOT_TOKEN := t, bot_ctor_ok := c, ADMIN_CHAT_ID := a, GROUP_ID := g,
                      tg_fails := f\<rparr>) request d w) = (status, res)
       \<and> fst (snd (create_order_handler
                (env\<lparr>BOT_TOKEN := t, bot_ctor_ok := c, ADMIN_CHAT_ID := a, GROUP_ID := g,
                      tg_fails := f\<rparr>) request d w)) = d'
       \<and> (\<exists>body r. request = Some body \<and> details res = Some r
             \<and> w' = (if r_orderId r \<noteq> 0 \<and> r_orderCode r \<noteq> []
                     then send_order_notifications env
                            (order_notification r (get_field body (ascii ''tickets''))) w
                     else w))
       \<and> (\<exists>b. fst (sendOrderNotificationToAdmin env n w0) = Inr b)
       \<and> (fst (sendChannelNotification env n w0) = Inl e
            \<longrightarrow> NotificationsFailed e \<in># logged (send_order_notifications env n w0))
       \<and> (\<not> getBot env
            \<longrightarrow> fst (sendChannelNotification env n w0) = Inr False
                \<and> BotNotInitializedForChannel \<in># logged (snd (sendChannelNotification env n w0))
                \<and> fst (sendOrderNotificationToAdmin env n w0) = Inr False
                \<and> BotNotInitialized \<in># logged (snd (sendOrderNotificationToAdmin env n w0)))
       \<and> (sent (snd (sendChannelNotification env n w0)) \<noteq> sent w0
            \<and> tg_fails env (length (sent w0))
            \<longrightarrow> fst (sendChannelNotification env n w0) = Inr False
                \<and> ChannelSendFailed (TelegramError (length (sent w0)))
                    \<in># logged (snd (sendChannelNotification env n w0)))
       \<and> (sent (snd (sendOrderNotificationToAdmin env n w0)) \<noteq> sent w0
            \<and> tg_fails env (length (sent w0))
            \<longrightarrow> fst (sendOrderNotificationToAdmin env n w0) = Inr False
                \<and> AdminSendFailed (TelegramError (length (sent w0)))
                    \<in># logged (snd (sendOrderNotificationToAdmin env n w0)))"
proof -
  let ?env = "env\<lparr>BOT_TOKEN := t, bot_ctor_ok := c, ADMIN_CHAT_ID := a, GROUP_ID := g,
                   tg_fails := f\<rparr>"
  from handler_success[OF assms]
  have 1: "status = 200" and 2: "\<exists>ctx. createOrderTool_execute env ctx d = (res, d')"
    and 5: "\<exists>body r. request = Some body \<and> details res = Some r
             \<and> w' = (if r_orderId r \<noteq> 0 \<and> r_orderCode r \<noteq> []
                     then send_order_notifications env
                            (order_notification r (get_field body (ascii ''tickets''))) w
                     else w)"
    by simp_all
  have "\<And>body n email price. execute_for_request ?env body n email price d
                                 = execute_for_request env body n email price d"
    by (rule execute_for_request_ignores_telegram)
  from handler_response_depends_on_tool[OF this, of request w] assms(1)
  have 3: "fst (create_order_handler ?env request d w) = (status, res)"
    and 4: "fst (snd (create_order_handler ?env request d w)) = d'"
    by simp_all
  note 6 = sendOrderNotificationToAdmin_resolves[of env n w0]
  have 7: "fst (sendChannelNotification env n w0) = Inl e
            \<longrightarrow> NotificationsFailed e \<in># logged (send_order_notifications env n w0)"
    by (intro impI) (rule send_order_notifications_rejected)
  have 8: "\<not> getBot env
            \<longrightarrow> fst (sendChannelNotification env n w0) = Inr False
                \<and> BotNotInitializedForChannel \<in># logged (snd (sendChannelNotification env n w0))
                \<and> fst (sendOrderNotificationToAdmin env n w0) = Inr False
                \<and> BotNotInitialized \<in># logged (snd (sendOrderNotificationToAdmin env n w0))"
    using sendChannelNotification_no_bot sendOrderNotificationToAdmin_no_bot
    by (intro impI conjI)
  have 9: "sent (snd (sendChannelNotification env n w0)) \<noteq> sent w0
            \<and> tg_fails env (length (sent w0))
            \<longrightarrow> fst (sendChannelNotification env n w0) = Inr False
                \<and> ChannelSendFailed (TelegramError (length (sent w0)))
                    \<in># logged (snd (sendChannelNotification env n w0))"
    using sendChannelNotification_send_fails by (intro impI) (elim conjE)
  have 10: "sent (snd (sendOrderNotificationToAdmin env n w0)) \<noteq> sent w0
            \<and> tg_fails env (length (sent w0))
            \<longrightarrow> fst (sendOrderNotificationToAdmin env n w0) = Inr False
                \<and> AdminSendFailed (TelegramError (length (sent w0)))
                    \<in># logged (snd (sendOrderNotificationToAdmin env n w0))"
    using sendOrderNotificationToAdmin_send_fails by (intro impI) (elim conjE)
  from 1 2 3 4 5 6 7 8 9 10 show ?thesis by (intro conjI)
qed

lemma generateOrderCode_nonempty: "generateOrderCode rnd \<noteq> []"
  by (simp add: generateOrderCode_def ascii_def)

lemma sample_tickets_throw: "formatTicketBreakdown (Some sample_tickets) = Inl TypeError"
  by (simp add: formatTicketBreakdown_def sample_tickets_def truthy_def entry_values_def
        List.map_filter_simps ascii_def)

theorem notification_failure_swallowed_witness:
  "fst (fst (create_order_handler (sample_env\<lparr>tg_fails := (\<lambda>k. True)\<rparr>)
               (Some (sample_body (JNum (ascii ''2'')) (Some sample_tickets))) sample_db io0))
     = 200
   \<and> success (snd (fst (create_order_handler (sample_env\<lparr>tg_fails := (\<lambda>k. True)\<rparr>)
                          (Some (sample_body (JNum (ascii ''2'')) (Some sample_tickets)))
                          sample_db io0)))
   \<and> fst (create_order_handler sample_env
            (Some (sample_body (JNum (ascii ''2'')) (Some sample_tickets))) sample_db io0)
       = fst (create_order_handler (sample_env\<lparr>tg_fails := (\<lambda>k. True)\<rparr>)
                (Some (sample_body (JNum (ascii ''2'')) (Some sample_tickets))) sample_db io0)
   \<and> logged (snd (snd (create_order_handler (sample_env\<lparr>tg_fails := (\<lambda>k. True)\<rparr>)
                          (Some (sample_body (JNum (ascii ''2'')) (Some sample_tickets)))
                          sample_db io0)))
       = {#NotificationsFailed TypeError, AdminSendFailed (TelegramError 0)#}
   \<and> fst (sendChannelNotification (sample_env\<lparr>tg_fails := (\<lambda>k. True)\<rparr>)
            (ticket_notification sample_env sample_ticket_body sample_event None [] 0) io0)
       = Inr False
   \<and> ChannelSendFailed (TelegramError 0)
       \<in># logged (snd (sendChannelNotification (sample_env\<lparr>tg_fails := (\<lambda>k. True)\<rparr>)
                         (ticket_notification sample_env sample_ticket_body sample_event None [] 0)
                         io0))
   \<and> fst (sendOrderNotificationToAdmin (sample_env\<lparr>tg_fails := (\<lambda>k. True)\<rparr>)
            (ticket_notification sample_env sample_ticket_body sample_event None [] 0) io0)
       = Inr False
   \<and> AdminSendFailed (TelegramError 0)
       \<in># logged (snd (sendOrderNotificationToAdmin (sample_env\<lparr>tg_fails := (\<lambda>k. True)\<rparr>)
                         (ticket_notification sample_env sample_ticket_body sample_event None [] 0)
                         io0))"
proof -
  let ?env = "sample_env\<lparr>tg_fails := (\<lambda>k. True)\<rparr>"
  let ?body = "sample_body (JNum (ascii ''2'')) (Some sample_tickets)"
  let ?R = "create_order_handler ?env (Some ?body) sample_db io0"
  let ?n = "ticket_notification sample_env sample_ticket_body sample_event None [] 0"
  have p: "dbPool ?env" "db_fails ?env = (\<lambda>k. False)"
    by (simp_all add: sample_env_def)
  have a: "(1::int) \<le> 2" "(2::int) \<le> 5" by simp_all
  note h = sample_handler_seats[OF p sample_parseInt(2) a,
             where t = "Some sample_tickets" and w = io0]
  have s: "success (snd (fst ?R))"
    by (simp add: h order_created_details(1))
  have c: "?R = ((fst (fst ?R), snd (fst ?R)), fst (snd ?R), snd (snd ?R))"
    by simp
  have e: "?env\<lparr>BOT_TOKEN := Some (ascii ''token''), bot_ctor_ok := True,
                 ADMIN_CHAT_ID := Some (ascii ''100''), GROUP_ID := Some (ascii ''-200''),
                 tg_fails := (\<lambda>k. False)\<rparr> = sample_env"
    by (simp add: sample_env_def)
  have g: "getBot ?env" "nonempty (GROUP_ID sample_env) = Some (ascii ''-200'')"
    "nonempty (ADMIN_CHAT_ID sample_env) = Some (ascii ''100'')" "new_id sample_env = 8"
    by (simp_all add: getBot_def nonempty_def sample_env_def ascii_def)
  have code: "generateOrderCode (random ?env) = ascii ''ORD-SSSSSSSS''"
    using sample_order_code by (simp add: sample_env_def)
  have l: "logged (snd (snd ?R))
             = {#NotificationsFailed TypeError, AdminSendFailed (TelegramError 0)#}"
    by (simp add: h notify_created_def order_created_def sample_body_fields(8)
          generateOrderCode_nonempty g)
       (simp add: send_order_notifications_def sendChannelNotification_def
          sendOrderNotificationToAdmin_def order_notification_def sample_tickets_throw g
          tg_api_def log_error_def io0_def)
  have t: "n_tickets ?n = None" by (simp add: ticket_notification_def)
  have f: "sent (snd (sendChannelNotification ?env ?n io0)) \<noteq> sent io0
           \<and> tg_fails ?env (length (sent io0))"
    "sent (snd (sendOrderNotificationToAdmin ?env ?n io0)) \<noteq> sent io0
           \<and> tg_fails ?env (length (sent io0))"
    by (simp_all add: sendChannelNotification_def sendOrderNotificationToAdmin_def g t
          formatTicketBreakdown_def tg_api_def log_error_def io0_def)
  have z: "length (sent io0) = 0" by (simp add: io0_def)
  from notification_failure_swallowed[OF c s,
         where t = "Some (ascii ''token'')" and c = True and a = "Some (ascii ''100'')"
           and g = "Some (ascii ''-200'')" and f = "\<lambda>k. False" and n = ?n and ?w0.0 = io0]
  have "fst (fst ?R) = 200"
    and "fst (create_order_handler sample_env (Some ?body) sample_db io0) = fst ?R"
    and "sent (snd (sendChannelNotification ?env ?n io0)) \<noteq> sent io0
            \<and> tg_fails ?env (length (sent io0))
            \<longrightarrow> fst (sendChannelNotification ?env ?n io0) = Inr False
                \<and> ChannelSendFailed (TelegramError (length (sent io0)))
                    \<in># logged (snd (sendChannelNotification ?env ?n io0))"
    and "sent (snd (sendOrderNotificationToAdmin ?env ?n io0)) \<noteq> sent io0
            \<and> tg_fails ?env (length (sent io0))
            \<longrightarrow> fst (sendOrderNotificationToAdmin ?env ?n io0) = Inr False
                \<and> AdminSendFailed (TelegramError (length (sent io0)))
                    \<in># logged (snd (sendOrderNotificationToAdmin ?env ?n io0))"
    by (simp_all only: e prod.collapse) simp_all
  with f s l z show ?thesis by simp
qed

section \<open>The refund callback\<close>

lemma answerCallbackQuery_sent:
  "sent (snd (answerCallbackQuery env i t w)) =
     (if getBot env then sent w @ [AnswerCallbackQuery i t] else sent w)"
  by (simp add: answerCallbackQuery_def tg_api_def log_error_def getBot_logged_def
        split: option.splits)

lemma refund_callback_try_processed:
  assumes "select_refund d (nth_opt (split_on 0x5F (cq_data cq)) 2) = refund # rest"
    and "rf_status refund = ascii ''approved'' \<or> rf_status refund = ascii ''rejected''"
  shows "refund_callback_try env cq d w =
           (if db_fails env 0 then (Inl (DbError 0), d, w)
            else if db_fails env 1 then (Inl (DbError 1), d, w)
            else (Inr (), d,
                  snd (answerCallbackQuery env (cq_id cq)
                         (AlreadyProcessed (rf_status refund = ascii ''approved'')) w)))"
  using assms by (simp add: refund_callback_try_def Let_def)

text \<open>The tables after the callback: as before, or with the one \<^verbatim>\<open>UPDATE\<close> applied.\<close>

lemma refund_callback_tables:
  "fst (snd (refund_callback env cq d w)) = fst (snd (refund_callback_try env cq d w))"
  by (cases "refund_callback_try env cq d w" rule: prod_cases3)
     (simp add: refund_callback_def split: sum.splits)

lemma refund_callback_status: "fst (refund_callback env cq d w) = (200, ''OK'')"
  by (cases "refund_callback_try env cq d w" rule: prod_cases3)
     (simp add: refund_callback_def split: sum.splits)

lemma refund_callback_try_tables:
  obtains (unchanged) "fst (snd (refund_callback_try env cq d w)) = d"
  | (updated) refund rest newStatus where
      "select_refund d (nth_opt (split_on 0x5F (cq_data cq)) 2) = refund # rest"
      "\<not> (rf_status refund = ascii ''approved'' \<or> rf_status refund = ascii ''rejected'')"
      "fst (snd (refund_callback_try env cq d w))
         = update_refund newStatus (now env) (nth_opt (split_on 0x5F (cq_data cq)) 2) d"
proof (cases "db_fails env 0")
  case True
  then show ?thesis by (intro unchanged) (simp add: refund_callback_try_def Let_def)
next
  case f0: False
  show ?thesis
  proof (cases "select_refund d (nth_opt (split_on 0x5F (cq_data cq)) 2)")
    case Nil
    with f0 show ?thesis by (intro unchanged) (simp add: refund_callback_try_def Let_def)
  next
    case (Cons refund rest)
    show ?thesis
    proof (cases "rf_status refund = ascii ''approved'' \<or> rf_status refund = ascii ''rejected''")
      case True
      show ?thesis
        by (intro unchanged) (simp add: refund_callback_try_processed[OF Cons True])
    next
      case open_link: False
      show ?thesis
      proof (cases "db_fails env 1")
        case True
        with f0 Cons open_link show ?thesis
          by (intro unchanged) (simp add: refund_callback_try_def Let_def)
      next
        case f1: False
        let ?newStatus = "if nth_opt (split_on 0x5F (cq_data cq)) 1 = Some (ascii ''approve'')
                          then ascii ''approved'' else ascii ''rejected''"
        have "fst (snd (refund_callback_try env cq d w))
                = update_refund ?newStatus (now env) (nth_opt (split_on 0x5F (cq_data cq)) 2) d"
          using f0 f1 Cons open_link
          by (simp add: refund_callback_try_def Let_def split: prod.splits sum.splits)
        with Cons open_link show ?thesis by (rule updated)
      qed
    qed
  qed
qed

text \<open>With one row for each refund code, the \<^verbatim>\<open>SELECT\<close> by a row's code returns that row.\<close>

lemma select_refund_filter:
  "select_refund d code = filter (\<lambda>r. Some (rf_refund_code r) = code) (refund_links d)"
proof -
  have "\<And>xs. concat (map (\<lambda>r. if Some (rf_refund_code r) = code then [r] else []) xs)
               = filter (\<lambda>r. Some (rf_refund_code r) = code) xs"
    by (induct_tac xs) simp_all
  then show ?thesis by (simp add: select_refund_def)
qed

lemma filter_distinct_key:
  assumes "distinct (map key xs)" and "i < length xs"
  shows "filter (\<lambda>r. key r = key (xs ! i)) xs = [xs ! i]"
  using assms
proof (induction xs arbitrary: i)
  case Nil
  then show ?case by simp
next
  case (Cons x xs)
  show ?case
  proof (cases i)
    case 0
    from Cons.prems(1) have "key x \<notin> key ` set xs" by simp
    then have "\<And>r. r \<in> set xs \<Longrightarrow> key r \<noteq> key x" by (metis imageI)
    then have "filter (\<lambda>r. key r = key x) xs = []" by (simp add: filter_empty_conv)
    with 0 show ?thesis by simp
  next
    case (Suc j)
    with Cons.prems have j: "j < length xs" and d: "distinct (map key xs)" by simp_all
    from j have "xs ! j \<in> set xs" by simp
    moreover from Cons.prems(1) have "key x \<notin> key ` set xs" by simp
    ultimately have "key x \<noteq> key (xs ! j)" by (metis imageI)
    with Suc Cons.IH[OF d j] show ?thesis by simp
  qed
qed

lemma select_refund_distinct:
  assumes "distinct (map rf_refund_code (refund_links d))" and "i < length (refund_links d)"
  shows "select_refund d (Some (rf_refund_code (refund_links d ! i))) = [refund_links d ! i]"
  using filter_distinct_key[OF assms] by (simp add: select_refund_filter)

lemma update_refund_other:
  assumes "i < length (refund_links d)" and "Some (rf_refund_code (refund_links d ! i)) \<noteq> code"
  shows "refund_links (update_refund s t code d) ! i = refund_links d ! i"
  using assms by (simp add: update_refund_def)

lemma length_update_refund:
  "length (refund_links (update_refund s t code d)) = length (refund_links d)"
  by (simp add: update_refund_def)

text \<open>
  Claim C10, for a table \<^verbatim>\<open>refund_links\<close> that has one row for each refund code. A
  refund link that is already approved or rejected is the same row after any refund
  callback, whichever database call may throw, and the handler answers \<^verbatim>\<open>OK\<close> with
  status 200. When the callback names that link, it leaves every table as it is, and
  when no database call throws, the only call to Telegram is the answer to the callback
  query with the notice that the refund has been processed already (no call at all when
  no bot is configured).
\<close>

theorem refund_callback_idempotent:
  assumes "is_refund_callback cq"
    and "distinct (map rf_refund_code (refund_links d))"
    and "i < length (refund_links d)"
    and "rf_status (refund_links d ! i) = ascii ''approved''
         \<or> rf_status (refund_links d ! i) = ascii ''rejected''"
  shows "fst (refund_callback env cq d w) = (200, ''OK'')
       \<and> length (refund_links (fst (snd (refund_callback env cq d w))))
           = length (refund_links d)
       \<and> refund_links (fst (snd (refund_callback env cq d w))) ! i = refund_links d ! i
       \<and> (nth_opt (split_on 0x5F (cq_data cq)) 2 = Some (rf_refund_code (refund_links d ! i))
            \<longrightarrow> fst (snd (refund_callback env cq d w)) = d
                \<and> (\<not> db_fails env 0 \<and> \<not> db_fails env 1 \<longrightarrow>
                     sent (snd (snd (refund_callback env cq d w)))
                       = (if getBot env
                          then sent w @ [AnswerCallbackQuery (cq_id cq)
                                           (AlreadyProcessed
                                              (rf_status (refund_links d ! i) = ascii ''approved''))]
                          else sent w)))"
proof -
  let ?code = "nth_opt (split_on 0x5F (cq_data cq)) 2"
  let ?r = "refund_links d ! i"
  have named: "refund_callback_try env cq d w =
           (if db_fails env 0 then (Inl (DbError 0), d, w)
            else if db_fails env 1 then (Inl (DbError 1), d, w)
            else (Inr (), d,
                  snd (answerCallbackQuery env (cq_id cq)
                         (AlreadyProcessed (rf_status ?r = ascii ''approved'')) w)))"
    if c: "?code = Some (rf_refund_code ?r)"
  proof -
    from select_refund_distinct[OF assms(2,3)] c have "select_refund d ?code = ?r # []"
      by simp
    from refund_callback_try_processed[OF this assms(4)] show ?thesis .
  qed
  have 1: "fst (refund_callback env cq d w) = (200, ''OK'')"
    by (rule refund_callback_status)
  have 23: "length (refund_links (fst (snd (refund_callback_try env cq d w))))
              = length (refund_links d)
            \<and> refund_links (fst (snd (refund_callback_try env cq d w))) ! i = ?r"
  proof (cases rule: refund_callback_try_tables[where env = env and cq = cq and d = d
                       and w = w])
    case unchanged
    then show ?thesis by simp
  next
    case (updated refund rest newStatus)
    have "Some (rf_refund_code ?r) \<noteq> ?code"
    proof
      assume "Some (rf_refund_code ?r) = ?code"
      with select_refund_distinct[OF assms(2,3)] updated(1) have "refund = ?r" by simp
      with updated(2) assms(4) show False by simp
    qed
    from update_refund_other[OF assms(3) this] updated(3) show ?thesis
      by (simp add: length_update_refund)
  qed
  have 4: "?code = Some (rf_refund_code ?r)
            \<longrightarrow> fst (snd (refund_callback env cq d w)) = d
                \<and> (\<not> db_fails env 0 \<and> \<not> db_fails env 1 \<longrightarrow>
                     sent (snd (snd (refund_callback env cq d w)))
                       = (if getBot env
                          then sent w @ [AnswerCallbackQuery (cq_id cq)
                                           (AlreadyProcessed (rf_status ?r = ascii ''approved''))]
                          else sent w))"
  proof (intro impI conjI)
    assume c: "?code = Some (rf_refund_code ?r)"
    show "fst (snd (refund_callback env cq d w)) = d"
      by (simp add: refund_callback_def named[OF c])
    assume "\<not> db_fails env 0 \<and> \<not> db_fails env 1"
    then show "sent (snd (snd (refund_callback env cq d w)))
                 = (if getBot env
                    then sent w @ [AnswerCallbackQuery (cq_id cq)
                                     (AlreadyProcessed (rf_status ?r = ascii ''approved''))]
                    else sent w)"
      by (simp add: refund_callback_def named[OF c] answerCallbackQuery_sent)
  qed
  from 1 23 4 show ?thesis by (simp only: refund_callback_tables)
qed

lemma sample_split:
  "split_on 0x5F (cq_data sample_callback) = [ascii ''refund'', ascii ''reject'', ascii ''RFD-ABC234'']"
  by (simp add: sample_callback_def ascii_def)

theorem refund_callback_idempotent_witness:
  "is_refund_callback sample_callback
   \<and> refund_links sample_db = [sample_refund]
   \<and> refund_callback sample_env sample_callback sample_db io0
       = ((200, ''OK''), sample_db,
          \<lparr>sent = [AnswerCallbackQuery (ascii ''cb1'') (AlreadyProcessed True)], logged = {#}\<rparr>)"
proof -
  have a: "is_refund_callback sample_callback"
    by (simp add: is_refund_callback_def startsWith_def sample_callback_def ascii_def)
  have r: "refund_links sample_db = [sample_refund]"
    by (simp add: sample_db_def)
  have u: "distinct (map rf_refund_code (refund_links sample_db))"
    "0 < length (refund_links sample_db)" "refund_links sample_db ! 0 = sample_refund"
    by (simp_all add: r)
  have b: "select_refund sample_db (nth_opt (split_on 0x5F (cq_data sample_callback)) 2)
             = sample_refund # []"
    by (simp add: sample_split nth_opt_def select_refund_def sample_db_def sample_refund_def)
  have c: "rf_status (refund_links sample_db ! 0) = ascii ''approved''
           \<or> rf_status (refund_links sample_db ! 0) = ascii ''rejected''"
    by (simp add: u(3) sample_refund_def)
  have c': "rf_status sample_refund = ascii ''approved'' \<or> rf_status sample_refund = ascii ''rejected''"
    by (simp add: sample_refund_def)
  have n: "nth_opt (split_on 0x5F (cq_data sample_callback)) 2
             = Some (rf_refund_code (refund_links sample_db ! 0))"
    by (simp add: sample_split nth_opt_def u(3) sample_refund_def)
  have g: "getBot sample_env"
    by (simp add: getBot_def nonempty_def sample_env_def ascii_def)
  have l: "logged (snd (snd (refund_callback sample_env sample_callback sample_db io0))) = {#}"
    by (simp add: refund_callback_def refund_callback_try_processed[OF b c'] sample_env_simps
          answerCallbackQuery_def g tg_api_def io0_def)
  from refund_callback_idempotent[OF a u(1,2) c, of sample_env io0] n
  have "fst (refund_callback sample_env sample_callback sample_db io0) = (200, ''OK'')"
    and "fst (snd (refund_callback sample_env sample_callback sample_db io0)) = sample_db"
    and "sent (snd (snd (refund_callback sample_env sample_callback sample_db io0)))
           = (if getBot sample_env
              then sent io0 @ [AnswerCallbackQuery (cq_id sample_callback)
                                 (AlreadyProcessed
                                    (rf_status (refund_links sample_db ! 0) = ascii ''approved''))]
              else sent io0)"
    by (simp_all add: sample_env_simps)
  with g l a r show ?thesis
    by (simp add: prod_eq_iff io0_def u(3) sample_refund_def sample_callback_def)
qed

text \<open>
  Claim C10 as it is worded fails when two refund links have the same code, which
  nothing in the code excludes. The handler decides by the first row that the
  \<^verbatim>\<open>SELECT\<close> returns, and its \<^verbatim>\<open>UPDATE\<close> writes every row with the code: with a pending
  link before an approved one, a \<^verbatim>\<open>refund_reject\<close> callback turns the approved link
  into a rejected one.
\<close>

theorem refund_callback_counterexample:
  "is_refund_callback sample_callback
   \<and> map rf_refund_code (refund_links sample_db_two_refunds)
       = [ascii ''RFD-ABC234'', ascii ''RFD-ABC234'']
   \<and> map rf_status (refund_links sample_db_two_refunds) = [ascii ''pending'', ascii ''approved'']
   \<and> map rf_status (refund_links (fst (snd (refund_callback sample_env sample_callback
                                               sample_db_two_refunds io0))))
       = [ascii ''rejected'', ascii ''rejected'']
   \<and> length (sent (snd (snd (refund_callback sample_env sample_callback
                                sample_db_two_refunds io0)))) = 3"
proof -
  have a: "is_refund_callback sample_callback"
    by (simp add: is_refund_callback_def startsWith_def sample_callback_def ascii_def)
  have r: "refund_links sample_db_two_refunds = [sample_refund_pending, sample_refund]"
    by (simp add: sample_db_two_refunds_def)
  have s: "select_refund sample_db_two_refunds (Some (ascii ''RFD-ABC234''))
             = [sample_refund_pending, sample_refund]"
    by (simp add: select_refund_def r sample_refund_pending_def sample_refund_def)
  have p: "rf_status sample_refund_pending = ascii ''pending''"
    "rf_status sample_refund = ascii ''approved''"
    "rf_refund_code sample_refund_pending = ascii ''RFD-ABC234''"
    "rf_refund_code sample_refund = ascii ''RFD-ABC234''"
    by (simp_all add: sample_refund_pending_def sample_refund_def)
  have q: "ascii ''pending'' \<noteq> ascii ''approved''" "ascii ''pending'' \<noteq> ascii ''rejected''"
    "ascii ''reject'' \<noteq> ascii ''approve''"
    by (simp_all add: ascii_def)
  have g: "getBot sample_env" "nonempty (GROUP_ID sample_env) = Some (ascii ''-200'')"
    by (simp_all add: getBot_def nonempty_def sample_env_def ascii_def)
  have t: "refund_callback_try sample_env sample_callback sample_db_two_refunds io0
             = (Inr (),
                update_refund (ascii ''rejected'') 2000 (Some (ascii ''RFD-ABC234''))
                  sample_db_two_refunds,
                snd (tg_api sample_env
                       (EditMessageText (Some 100) (Some 55)
                          (RefundStatusText False (ascii ''RFD-ABC234'') 3000 2000))
                       (snd (answerCallbackQuery sample_env (ascii ''cb1'') RefundRejectedNotice
                               (snd (sendRefundRejectedNotification sample_env
                                       \<lparr>rd_refundCode = ascii ''RFD-ABC234'', rd_amount = 3000,
                                        rd_customerName = None, rd_refundNumber = None\<rparr>
                                       io0))))))"
    by (simp add: refund_callback_try_def sample_split nth_opt_def s p q g sample_env_simps
          Let_def tg_api_def)
       (simp add: sample_callback_def sample_refund_pending_def sample_refund_def)
  show ?thesis
    by (simp add: a r p refund_callback_def t update_refund_def)
       (simp add: tg_api_def answerCallbackQuery_def sendRefundRejectedNotification_def g
          sample_env_simps io0_def)
qed

section \<open>Admin session tokens\<close>

lemma run_session_snoc: "run_session (ops @ [x]) = session_step (run_session ops) x"
  by (simp add: run_session_def)

lemma generated_times_snoc:
  "generated_times (ops @ [x]) token =
     generated_times ops token
       @ (case x of Generate tok t \<Rightarrow> if tok = token then [t] else [] | Validate tok t \<Rightarrow> [])"
  by (simp add: generated_times_def)

lemma created_at_snoc_Generate:
  "created_at (ops @ [Generate tok t]) token =
     (if tok = token then Some t else created_at ops token)"
  by (cases "generated_times ops token")
     (simp_all add: created_at_def generated_times_snoc)

lemma created_at_snoc_Validate:
  "created_at (ops @ [Validate tok t]) token = created_at ops token"
  by (simp add: created_at_def generated_times_snoc)

lemma created_at_in_ops:
  assumes "created_at ops token = Some t"
  shows "Generate token t \<in> set ops"
  using assms
proof (induction ops rule: rev_induct)
  case Nil
  then show ?case by (simp add: created_at_def generated_times_def)
next
  case (snoc x ops)
  show ?case
  proof (cases x)
    case (Generate tok t')
    with snoc show ?thesis
      by (cases "tok = token") (simp_all add: created_at_snoc_Generate)
  next
    case (Validate tok t')
    with snoc show ?thesis by (simp add: created_at_snoc_Validate)
  qed
qed

lemma session_inv_Nil: "session_inv [] token"
  by (simp add: session_inv_def run_session_def created_at_def generated_times_def)

lemma session_inv_snoc:
  assumes inv: "session_inv ops token"
    and mono: "ops \<noteq> [] \<longrightarrow> op_time (last ops) \<le> op_time x"
  shows "session_inv (ops @ [x]) token"
proof (cases x)
  case (Generate tok t)
  show ?thesis
  proof (cases "tok = token")
    case True
    with Generate show ?thesis
      by (simp add: session_inv_def run_session_snoc generateAdminToken_def
            created_at_snoc_Generate)
  next
    case False
    with Generate have m: "run_session (ops @ [x]) token = run_session ops token"
      and c: "created_at (ops @ [x]) token = created_at ops token"
      by (simp_all add: run_session_snoc generateAdminToken_def created_at_snoc_Generate)
    from inv mono Generate show ?thesis
      unfolding session_inv_def m c
      by (auto split: option.splits)
  qed
next
  case (Validate tok t)
  have c: "created_at (ops @ [x]) token = created_at ops token"
    by (simp add: Validate created_at_snoc_Validate)
  show ?thesis
  proof (cases "run_session ops token")
    case None
    then have m: "run_session (ops @ [x]) token = None"
      by (simp add: Validate run_session_snoc isValidAdminToken_def split: option.splits)
    from inv mono None Validate show ?thesis
      unfolding session_inv_def m c
      by (auto split: option.splits)
  next
    case (Some e)
    show ?thesis
    proof (cases "tok = token \<and> e \<noteq> 0 \<and> t > e")
      case True
      with Some have m: "run_session (ops @ [x]) token = None"
        by (simp add: Validate run_session_snoc isValidAdminToken_def)
      from inv Some have "created_at ops token = Some (e - 24 * 60 * 60 * 1000)"
        by (simp add: session_inv_def)
      with True Validate show ?thesis
        unfolding session_inv_def m c by simp
    next
      case False
      with Some have m: "run_session (ops @ [x]) token = Some e"
        by (auto simp: Validate run_session_snoc isValidAdminToken_def split: option.splits)
      from inv Some show ?thesis
        unfolding session_inv_def m c by simp
    qed
  qed
qed

lemma session_inv_holds:
  assumes "sorted (map op_time ops)"
  shows "session_inv ops token"
  using assms
proof (induction ops rule: rev_induct)
  case Nil
  show ?case by (rule session_inv_Nil)
next
  case (snoc x ops)
  from snoc.prems have s: "sorted (map op_time ops)"
    and l: "\<forall>y\<in>set ops. op_time y \<le> op_time x"
    by (auto simp: sorted_append)
  have "ops \<noteq> [] \<longrightarrow> op_time (last ops) \<le> op_time x"
    using l by simp
  with snoc.IH[OF s] show ?case by (rule session_inv_snoc)
qed

text \<open>
  Claim C9, with the boundary the code has. Along a history of calls that starts with
  the empty session map and whose clock never runs backwards and is never before the
  epoch, \<^verbatim>\<open>isValidAdminToken\<close> returns true if and only if the token was produced by
  \<^verbatim>\<open>generateAdminToken\<close> and at most 24 hours (86 400 000 ms) have elapsed since it
  was last produced; and when the entry's expiry has passed, the call removes the entry
  from the session map and returns false.
\<close>

theorem admin_token_valid_iff:
  assumes "clock_ok ops t"
  shows "(fst (isValidAdminToken token t (run_session ops))
            \<longleftrightarrow> (\<exists>t0. created_at ops token = Some t0 \<and> t - t0 \<le> 24 * 60 * 60 * 1000))
       \<and> (\<forall>expiry. run_session ops token = Some expiry \<and> expiry < t
             \<longrightarrow> isValidAdminToken token t (run_session ops)
                   = (False, (run_session ops)(token := None)))"
proof -
  from assms have s: "sorted (map op_time ops)"
    and l: "\<forall>x\<in>set ops. op_time x \<le> t"
    and z: "\<forall>x\<in>set ops. 0 \<le> op_time x"
    by (auto simp: clock_ok_def sorted_append)
  note inv = session_inv_holds[OF s, of token]
  show ?thesis
  proof (cases "run_session ops token")
    case None
    have "\<not> (\<exists>t0. created_at ops token = Some t0 \<and> t - t0 \<le> 24 * 60 * 60 * 1000)"
    proof
      assume "\<exists>t0. created_at ops token = Some t0 \<and> t - t0 \<le> 24 * 60 * 60 * 1000"
      then obtain t0 where t0: "created_at ops token = Some t0" "t - t0 \<le> 24 * 60 * 60 * 1000"
        by (elim exE conjE)
      with inv None have "ops \<noteq> []" "t0 + 24 * 60 * 60 * 1000 < op_time (last ops)"
        by (simp_all add: session_inv_def)
      moreover from this(1) l have "op_time (last ops) \<le> t" by simp
      ultimately show False using t0(2) by simp
    qed
    with None show ?thesis by (simp add: isValidAdminToken_def)
  next
    case (Some e)
    with inv have c: "created_at ops token = Some (e - 24 * 60 * 60 * 1000)"
      by (simp add: session_inv_def)
    from created_at_in_ops[OF c] z have "0 \<le> e - 24 * 60 * 60 * 1000"
      by fastforce
    then have "e \<noteq> 0" by simp
    with Some c show ?thesis
      by (auto simp: isValidAdminToken_def)
  qed
qed

theorem admin_token_valid_iff_witness:
  "clock_ok [Generate (ascii ''tok'') 0] 86400000
   \<and> fst (isValidAdminToken (ascii ''tok'') 86400000 (run_session [Generate (ascii ''tok'') 0]))
   \<and> created_at [Generate (ascii ''tok'') 0] (ascii ''tok'') = Some 0
   \<and> isValidAdminToken (ascii ''tok'') 86400001 (run_session [Generate (ascii ''tok'') 0])
       = (False, (run_session [Generate (ascii ''tok'') 0])(ascii ''tok'' := None))"
proof -
  have a: "clock_ok [Generate (ascii ''tok'') 0] 86400000"
    and b: "clock_ok [Generate (ascii ''tok'') 0] 86400001"
    by (simp_all add: clock_ok_def)
  have c: "created_at [Generate (ascii ''tok'') 0] (ascii ''tok'') = Some 0"
    by (simp add: created_at_def generated_times_def)
  have m: "run_session [Generate (ascii ''tok'') 0] (ascii ''tok'') = Some 86400000"
    by (simp add: run_session_def generateAdminToken_def)
  from admin_token_valid_iff[OF a, of "ascii ''tok''"] c
  have 1: "fst (isValidAdminToken (ascii ''tok'') 86400000 (run_session [Generate (ascii ''tok'') 0]))"
    by simp
  from admin_token_valid_iff[OF b, of "ascii ''tok''"] m
  have 2: "isValidAdminToken (ascii ''tok'') 86400001 (run_session [Generate (ascii ''tok'') 0])
       = (False, (run_session [Generate (ascii ''tok'') 0])(ascii ''tok'' := None))"
    by simp
  from a 1 c 2 show ?thesis by (intro conjI)
qed

text \<open>
  Claim C9 as it is worded fails at the boundary: exactly 24 hours after the token was
  produced, \<^verbatim>\<open>Date.now() > expiry\<close> is false and the token is still accepted, although
  it is not the case that fewer than 24 hours have elapsed.
\<close>

theorem admin_token_boundary_counterexample:
  "clock_ok [Generate (ascii ''tok'') 0] 86400000
   \<and> fst (isValidAdminToken (ascii ''tok'') 86400000 (run_session [Generate (ascii ''tok'') 0]))
   \<and> \<not> (fst (isValidAdminToken (ascii ''tok'') 86400000
                 (run_session [Generate (ascii ''tok'') 0]))
          \<longleftrightarrow> (\<exists>t0. created_at [Generate (ascii ''tok'') 0] (ascii ''tok'') = Some t0
                     \<and> 86400000 - t0 < 24 * 60 * 60 * 1000))"
  by (simp add: clock_ok_def created_at_def generated_times_def run_session_def
        generateAdminToken_def isValidAdminToken_def)

text \<open>
  The condition on the clock is needed. When the clock has run ahead and is set back, a
  token that a call has found expired, and removed, is rejected although it was produced
  less than 24 hours ago by the clock; and a token produced 24 hours before the epoch
  has the expiry 0, which \<^verbatim>\<open>!expiry\<close> takes for a missing entry.
\<close>

lemma admin_token_clock_needed:
  "\<not> clock_ok [Generate (ascii ''tok'') 0, Validate (ascii ''tok'') 86400001] 50000000
   \<and> created_at [Generate (ascii ''tok'') 0, Validate (ascii ''tok'') 86400001] (ascii ''tok'')
       = Some 0
   \<and> \<not> fst (isValidAdminToken (ascii ''tok'') 50000000
              (run_session [Generate (ascii ''tok'') 0, Validate (ascii ''tok'') 86400001]))
   \<and> \<not> clock_ok [Generate (ascii ''tok'') (- 86400000)] (- 86400000)
   \<and> created_at [Generate (ascii ''tok'') (- 86400000)] (ascii ''tok'') = Some (- 86400000)
   \<and> \<not> fst (isValidAdminToken (ascii ''tok'') (- 86400000)
              (run_session [Generate (ascii ''tok'') (- 86400000)]))"
  by (simp add: clock_ok_def created_at_def generated_times_def run_session_def
        generateAdminToken_def isValidAdminToken_def)

end
